theory Spec2Isabelle
  imports Main
begin

section \<open>Data model of the MicroCloud charm (src/charm.py)\<close>

text \<open>
  Python values that a dictionary of the charm may hold. Relation data bags and the
  configuration are dictionaries from strings to such values.
\<close>

datatype pyval = PyNone | PyBool bool | PyInt int | PyStr string

text \<open>Python truthiness, as used by \<^verbatim>\<open>if value:\<close>.\<close>

fun truthy :: "pyval \<Rightarrow> bool" where
  "truthy PyNone = False"
| "truthy (PyBool b) = b"
| "truthy (PyInt i) = (i \<noteq> 0)"
| "truthy (PyStr s) = (s \<noteq> [])"

text \<open>
  The peer relation \<^verbatim>\<open>self.model.get_relation("cluster")\<close>: the remote units
  (\<^verbatim>\<open>relation.units\<close>, a set, given by the list of its elements in iteration order)
  and the data bags (\<^verbatim>\<open>relation.data\<close>), a mapping from a unit to its bag. Units are
  identified by their names. Indexing \<^verbatim>\<open>relation.data\<close> with a unit it has no
  bag for raises KeyError.
\<close>

record relation =
  units :: "string list"
  data :: "string \<rightharpoonup> (string \<rightharpoonup> pyval)"

text \<open>Unit statuses, with the message the code passes (f-strings kept as structured messages).\<close>

datatype message =
  Msg string
| Failed_to_run "string list" "string option" int
| Timeout_exceeded "string list"
| Failed_to_remove string
| Failed_to_apply "string list"

datatype status =
  UnknownStatus
| ActiveStatus
| BlockedStatus message
| MaintenanceStatus message
| WaitingStatus message

text \<open>Exceptions that the modelled code raises or lets through.\<close>

datatype exn =
  KeyError
| AttributeError
| TypeError
| JSONDecodeError
| CalledProcessError "string list" int "string option"
| TimeoutExpired "string list"
| FileNotFoundError
| SnapError
| RuntimeError

text \<open>
  The state of one unit's charm: what the framework supplies (\<^verbatim>\<open>self.unit\<close>, leadership,
  \<^verbatim>\<open>self.app.planned_units()\<close>, the peer relation, \<^verbatim>\<open>self.config\<close>,
  \<^verbatim>\<open>os.uname().nodename\<close>), what the charm keeps (\<^verbatim>\<open>self._stored.config\<close>,
  \<^verbatim>\<open>self.unit.status\<close>), and two observations of its effects: every external command
  issued so far, oldest first, and whether \<^verbatim>\<open>event.defer()\<close> was called on the event
  being handled.
\<close>

record charm =
  self_unit :: string
  is_leader :: bool
  planned_units :: int
  peers :: "relation option"
  config :: "(string \<times> pyval) list"
  stored_config :: "string \<rightharpoonup> pyval"
  nodename :: string
  status :: status
  cmds :: "string list list"
  deferred :: bool

text \<open>
  A computation of the charm: from a state it ends with a value or an exception, and a
  new state. What was done before an exception was raised stays done.
\<close>

type_synonym 'a M = "charm \<Rightarrow> (exn + 'a) \<times> charm"

definition ret :: "'a \<Rightarrow> 'a M" where
  "ret v st = (Inr v, st)"

definition raise :: "exn \<Rightarrow> 'a M" where
  "raise e st = (Inl e, st)"

definition modify :: "(charm \<Rightarrow> charm) \<Rightarrow> unit M" where
  "modify f st = (Inr (), f st)"

definition bnd :: "'a M \<Rightarrow> ('a \<Rightarrow> 'b M) \<Rightarrow> 'b M" where
  "bnd m f st = (case m st of (Inl e, st') \<Rightarrow> (Inl e, st') | (Inr v, st') \<Rightarrow> f v st')"

text \<open>
  \<^verbatim>\<open>try: m  except ...\<close>: the handler answers None for an exception that no
  \<^verbatim>\<open>except\<close> clause matches, which then propagates.
\<close>

definition try_except :: "'a M \<Rightarrow> (exn \<Rightarrow> 'a M option) \<Rightarrow> 'a M" where
  "try_except m handler st =
     (case m st of
        (Inr v, st') \<Rightarrow> (Inr v, st')
      | (Inl e, st') \<Rightarrow> (case handler e of None \<Rightarrow> (Inl e, st') | Some h \<Rightarrow> h st'))"

section \<open>Status reporter\<close>

definition unit_active :: "charm \<Rightarrow> charm" where
  "unit_active st = st\<lparr>status := ActiveStatus\<rparr>"

definition unit_blocked :: "message \<Rightarrow> charm \<Rightarrow> charm" where
  "unit_blocked m st = st\<lparr>status := BlockedStatus m\<rparr>"

definition unit_maintenance :: "message \<Rightarrow> charm \<Rightarrow> charm" where
  "unit_maintenance m st = st\<lparr>status := MaintenanceStatus m\<rparr>"

definition unit_waiting :: "message \<Rightarrow> charm \<Rightarrow> charm" where
  "unit_waiting m st = st\<lparr>status := WaitingStatus m\<rparr>"

text \<open>\<^verbatim>\<open>event.defer()\<close>\<close>

definition event_defer :: "charm \<Rightarrow> charm" where
  "event_defer st = st\<lparr>deferred := True\<rparr>"

section \<open>Peer state store\<close>

text \<open>
  \<^verbatim>\<open>get_peer_data_str(bag, key)\<close>. The bag argument is a unit or None. The function only
  reads, so it returns a value or an exception.
\<close>

definition get_peer_data_str :: "string option \<Rightarrow> string \<Rightarrow> charm \<Rightarrow> exn + string" where
  "get_peer_data_str bag key st =
     (case peers st of
        None \<Rightarrow> Inr ''''
      | Some r \<Rightarrow>
          (case bag of
             None \<Rightarrow> Inr ''''
           | Some b \<Rightarrow>
               if key = '''' then Inr ''''
               else
                 (case data r b of
                    None \<Rightarrow> Inl KeyError
                  | Some content \<Rightarrow>
                      (case content key of
                         None \<Rightarrow> Inr ''''
                       | Some (PyStr s) \<Rightarrow> Inr s
                       | Some _ \<Rightarrow> Inr ''''))))"

text \<open>
  \<^verbatim>\<open>self.peers.data[bag][key] = value\<close>; the framework removes the key when the value
  is the empty string.
\<close>

definition store_peer_data :: "string \<Rightarrow> string \<Rightarrow> string \<Rightarrow> unit M" where
  "store_peer_data b key v st =
     (case peers st of
        None \<Rightarrow> (Inl AttributeError, st)
      | Some r \<Rightarrow>
          (case data r b of
             None \<Rightarrow> (Inl KeyError, st)
           | Some content \<Rightarrow>
               (Inr (),
                st\<lparr>peers := Some (r\<lparr>data := (data r)(b \<mapsto>
                  (if v = '''' then content(key := None) else content(key \<mapsto> PyStr v)))\<rparr>)\<rparr>)))"

text \<open>\<^verbatim>\<open>set_peer_data_str(bag, key, value)\<close>\<close>

definition set_peer_data_str :: "string option \<Rightarrow> string \<Rightarrow> string \<Rightarrow> unit M" where
  "set_peer_data_str bag key v st =
     (case peers st of
        None \<Rightarrow> (Inr (), st)
      | Some r \<Rightarrow>
          (case bag of
             None \<Rightarrow> (Inr (), st)
           | Some b \<Rightarrow>
               if key = '''' then (Inr (), st)
               else
                 (case get_peer_data_str bag key st of
                    Inl e \<Rightarrow> (Inl e, st)
                  | Inr old_value \<Rightarrow>
                      if old_value \<noteq> v then store_peer_data b key v st else (Inr (), st))))"

text \<open>The value stored under a key of a unit's bag, if the relation, the bag and the key exist.\<close>

definition stored_value :: "charm \<Rightarrow> string \<Rightarrow> string \<Rightarrow> pyval option" where
  "stored_value st b key =
     (case peers st of
        None \<Rightarrow> None
      | Some r \<Rightarrow> (case data r b of None \<Rightarrow> None | Some content \<Rightarrow> content key))"

section \<open>Configuration\<close>

text \<open>\<^verbatim>\<open>config_changed()\<close>: the options whose value is new or differs from the stored one.\<close>

definition config_changed :: "charm \<Rightarrow> (string \<times> pyval) list" where
  "config_changed st =
     filter (\<lambda>(k, v). case stored_config st k of None \<Rightarrow> True | Some old \<Rightarrow> v \<noteq> old)
       (config st)"

text \<open>\<^verbatim>\<open>config_is_valid()\<close>: computes the changes, logs them, returns True.\<close>

definition config_is_valid :: "charm \<Rightarrow> bool" where
  "config_is_valid st = (let changed = config_changed st in True)"

text \<open>\<^verbatim>\<open>self.config[key]\<close> and \<^verbatim>\<open>self._stored.config[key]\<close>\<close>

definition config_get :: "string \<Rightarrow> pyval M" where
  "config_get key st =
     (case map_of (config st) key of None \<Rightarrow> (Inl KeyError, st) | Some v \<Rightarrow> (Inr v, st))"

definition stored_config_get :: "string \<Rightarrow> pyval M" where
  "stored_config_get key st =
     (case stored_config st key of None \<Rightarrow> (Inl KeyError, st) | Some v \<Rightarrow> (Inr v, st))"

definition stored_config_set :: "string \<Rightarrow> pyval \<Rightarrow> unit M" where
  "stored_config_set key v st = (Inr (), st\<lparr>stored_config := (stored_config st)(key \<mapsto> v)\<rparr>)"

section \<open>Command executor and external collaborators\<close>

text \<open>
  What an external process does: how long it runs (in seconds), its exit status and
  its output. Processes that never end are outside the model.
\<close>

record proc =
  duration :: nat
  returncode :: int
  stdout :: string
  stderr :: string

text \<open>A decoded JSON document (a dictionary is given by its items).\<close>

datatype json =
  JNull | JBool bool | JNum int | JStr string | JList "json list" | JDict "(string \<times> json) list"

text \<open>
  The world outside the charm during one handler execution: the behaviour of each
  command line, whether the executable of an optional snap (microceph, microovn) exists
  when a command calls it, the snap library (is a snap present, does \<^verbatim>\<open>ensure\<close> succeed
  or raise SnapError), the JSON grammar (the decoding of a non-empty text), and what
  \<^verbatim>\<open>resource_sideload\<close> does. That function works on files, tarballs, snaps and the
  stored resource paths; of the state modelled here it can only set the unit status
  (through \<^verbatim>\<open>unit_blocked\<close> and \<^verbatim>\<open>unit_maintenance\<close>), issue commands and raise.
\<close>

record env =
  run :: "string list \<Rightarrow> proc"
  installed :: "string \<Rightarrow> bool"
  snap_present :: "string \<Rightarrow> bool"
  snap_ensure_ok :: "string \<Rightarrow> bool"
  json_decode :: "string \<Rightarrow> json option"
  sideload_result :: "exn + unit"
  sideload_status :: "status option"
  sideload_cmds :: "string list list"

definition resource_sideload :: "env \<Rightarrow> unit M" where
  "resource_sideload e st =
     (sideload_result e,
      st\<lparr>status := (case sideload_status e of None \<Rightarrow> status st | Some s \<Rightarrow> s),
         cmds := cmds st @ sideload_cmds e\<rparr>)"

text \<open>
  The charm installs the snaps of microceph and microovn only where they are enabled
  (\<^verbatim>\<open>snap_install_microcloud\<close>), so their executables may be missing; those of the
  system and of the snaps installed on every unit (\<^verbatim>\<open>rm\<close>, \<^verbatim>\<open>ln\<close>, \<^verbatim>\<open>lxc\<close>,
  \<^verbatim>\<open>microcloud\<close>) are there.
\<close>

definition optional_executables :: "string list" where
  "optional_executables = [''microceph'', ''microovn'']"

definition executable_missing :: "env \<Rightarrow> string list \<Rightarrow> bool" where
  "executable_missing e argv =
     (case argv of
        [] \<Rightarrow> False
      | exe # args \<Rightarrow> exe \<in> set optional_executables \<and> \<not> installed e exe)"

text \<open>
  \<^verbatim>\<open>subprocess.run(argv, capture_output=..., check=..., timeout=...)\<close>: FileNotFoundError
  when the executable is missing, TimeoutExpired when a timeout is given and exceeded,
  CalledProcessError when \<^verbatim>\<open>check\<close> is set and the exit status is not zero, the captured
  standard output otherwise. The call is recorded in each case. Output is text: the
  UnicodeDecodeError of \<^verbatim>\<open>text=True\<close> on output that does not decode is outside the
  model, as is a missing executable of the system or of a snap that every unit installs.
\<close>

definition subprocess_run ::
  "env \<Rightarrow> string list \<Rightarrow> bool \<Rightarrow> bool \<Rightarrow> nat option \<Rightarrow> (string option) M" where
  "subprocess_run e argv capture_output check timeout st =
     (let p = run e argv; st' = st\<lparr>cmds := cmds st @ [argv]\<rparr> in
      if executable_missing e argv
      then (Inl FileNotFoundError, st')
      else if (case timeout of None \<Rightarrow> False | Some t \<Rightarrow> t < duration p)
      then (Inl (TimeoutExpired argv), st')
      else if check \<and> returncode p \<noteq> 0
      then (Inl (CalledProcessError argv (returncode p)
                  (if capture_output then Some (stderr p) else None)), st')
      else (Inr (if capture_output then Some (stdout p) else None), st'))"

text \<open>\<^verbatim>\<open>json.loads\<close>: an empty text is no JSON document.\<close>

definition json_loads :: "env \<Rightarrow> string \<Rightarrow> exn + json" where
  "json_loads e s =
     (if s = '''' then Inl JSONDecodeError
      else (case json_decode e s of None \<Rightarrow> Inl JSONDecodeError | Some j \<Rightarrow> Inr j))"

section \<open>Snap installation and configuration changes\<close>

definition cmd_rm_etc_ceph :: "string list" where
  "cmd_rm_etc_ceph = [''rm'', ''-rf'', ''/etc/ceph'']"

definition cmd_ln_etc_ceph :: "string list" where
  "cmd_ln_etc_ceph = [''ln'', ''-s'', ''/var/snap/microceph/current/conf/'', ''/etc/ceph'']"

text \<open>\<^verbatim>\<open>snap.ensure(SnapState.Latest, ...)\<close>\<close>

definition snap_ensure :: "env \<Rightarrow> string \<Rightarrow> unit M" where
  "snap_ensure e name = (if snap_ensure_ok e name then ret () else raise SnapError)"

text \<open>
  \<^verbatim>\<open>if not snap.present: snap.ensure(SnapState.Latest, channel=self.config[key], ...)\<close>
\<close>

definition ensure_if_absent :: "env \<Rightarrow> string \<Rightarrow> string \<Rightarrow> unit M" where
  "ensure_if_absent e name channel_key =
     (if snap_present e name then ret ()
      else bnd (config_get channel_key) (\<lambda>channel. snap_ensure e name))"

text \<open>\<^verbatim>\<open>self._stored.config[key] = self.config[key]\<close>\<close>

definition remember_config :: "string \<Rightarrow> unit M" where
  "remember_config key = bnd (config_get key) (\<lambda>v. stored_config_set key v)"

definition snap_install_microcloud :: "env \<Rightarrow> unit M" where
  "snap_install_microcloud e =
     bnd (try_except
            (bnd (snap_ensure e ''snapd'') (\<lambda>_.
             bnd (ensure_if_absent e ''microcloud'' ''snap-channel-microcloud'') (\<lambda>_.
             bnd (config_get ''microceph'') (\<lambda>microceph_enabled.
             bnd (if truthy microceph_enabled
                  then bnd (ensure_if_absent e ''microceph'' ''snap-channel-microceph'') (\<lambda>_.
                       bnd (subprocess_run e cmd_rm_etc_ceph False True (Some 600)) (\<lambda>_.
                       bnd (subprocess_run e cmd_ln_etc_ceph False True (Some 600)) (\<lambda>_.
                       ret ())))
                  else ret ()) (\<lambda>_.
             bnd (config_get ''microovn'') (\<lambda>microovn_enabled.
             bnd (if truthy microovn_enabled
                  then ensure_if_absent e ''microovn'' ''snap-channel-microovn''
                  else ret ()) (\<lambda>_.
             ensure_if_absent e ''lxd'' ''snap-channel-lxd'')))))))
            (\<lambda>x. if x = SnapError
                 then Some (bnd (modify (unit_blocked
                                   (Msg ''An exception occurred when installing snap packages'')))
                              (\<lambda>_. raise RuntimeError))
                 else None))
       (\<lambda>_.
        bnd (remember_config ''snap-channel-lxd'') (\<lambda>_.
        bnd (remember_config ''snap-channel-microcloud'') (\<lambda>_.
        bnd (remember_config ''snap-channel-microceph'') (\<lambda>_.
        remember_config ''snap-channel-microovn''))))"

text \<open>\<^verbatim>\<open>_on_charm_install\<close>, after the validity check of its first lines.\<close>

definition install_after_validation :: "env \<Rightarrow> unit M" where
  "install_after_validation e =
     bnd (try_except
            (bnd (snap_install_microcloud e) (\<lambda>_. ret True))
            (\<lambda>x. if x = RuntimeError
                 then Some (bnd (modify event_defer) (\<lambda>_. ret False))
                 else None))
       (\<lambda>installed. if installed then resource_sideload e else ret ())"

definition on_charm_install :: "env \<Rightarrow> unit M" where
  "on_charm_install e st =
     (if \<not> config_is_valid st then ret () st else install_after_validation e st)"

text \<open>\<^verbatim>\<open>_on_charm_config_changed\<close>, after the validity check of its first lines.\<close>

definition config_changed_after_validation :: "env \<Rightarrow> unit M" where
  "config_changed_after_validation e st =
     (let changed = map fst (config_changed st) in
      if changed = [] then ret () st
      else if ''snap-channel-lxd'' \<in> set changed
              \<or> ''snap-channel-microcloud'' \<in> set changed
              \<or> ''snap-channel-microceph'' \<in> set changed
              \<or> ''snap-channel-microovn'' \<in> set changed
      then try_except (snap_install_microcloud e)
             (\<lambda>x. if x = RuntimeError
                  then Some (bnd (modify (unit_blocked (Failed_to_apply changed)))
                               (\<lambda>_. modify event_defer))
                  else None) st
      else ret () st)"

definition on_charm_config_changed :: "env \<Rightarrow> unit M" where
  "on_charm_config_changed e st =
     (if \<not> config_is_valid st then ret () st else config_changed_after_validation e st)"

section \<open>Cluster commands\<close>

definition cmd_cluster_list :: "string list" where
  "cmd_cluster_list = [''lxc'', ''cluster'', ''list'']"

definition cmd_init :: "string list" where
  "cmd_init = [''microcloud'', ''init'', ''--auto'']"

definition cmd_enable_rgw :: "string list" where
  "cmd_enable_rgw = [''microceph'', ''enable'', ''rgw'']"

definition cmd_add :: "string list" where
  "cmd_add = [''microcloud'', ''add'', ''--auto'']"

definition cmd_list_instances :: "string list" where
  "cmd_list_instances = [''lxc'', ''list'', ''--all-projects'', ''--format=json'']"

definition cmd_remove_lxd :: "string \<Rightarrow> string list" where
  "cmd_remove_lxd node = [''lxc'', ''cluster'', ''remove'', node]"

definition cmd_remove_microceph :: "string \<Rightarrow> string list" where
  "cmd_remove_microceph node = [''microceph'', ''cluster'', ''remove'', node]"

definition cmd_remove_microovn :: "string \<Rightarrow> string list" where
  "cmd_remove_microovn node = [''microovn'', ''cluster'', ''remove'', node]"

definition cmd_remove_microcloud :: "string \<Rightarrow> string list" where
  "cmd_remove_microcloud node = [''microcloud'', ''cluster'', ''remove'', node]"

text \<open>
  The two \<^verbatim>\<open>except\<close> clauses that \<^verbatim>\<open>microcloud_init\<close>, \<^verbatim>\<open>microcloud_add\<close> and the
  removal steps of \<^verbatim>\<open>microcloud_remove\<close> share.
\<close>

definition blocked_then_runtime_error :: "exn \<Rightarrow> 'a M option" where
  "blocked_then_runtime_error x =
     (case x of
        CalledProcessError c rc err \<Rightarrow>
          Some (bnd (modify (unit_blocked (Failed_to_run c err rc))) (\<lambda>_. raise RuntimeError))
      | TimeoutExpired c \<Rightarrow>
          Some (bnd (modify (unit_blocked (Timeout_exceeded c))) (\<lambda>_. raise RuntimeError))
      | _ \<Rightarrow> None)"

definition microcloud_init :: "env \<Rightarrow> unit M" where
  "microcloud_init e =
     bnd (modify (unit_maintenance (Msg ''Initializing MicroCloud''))) (\<lambda>_.
     try_except
       (bnd (subprocess_run e cmd_init True True (Some 600)) (\<lambda>_.
        bnd (subprocess_run e cmd_enable_rgw False True (Some 600)) (\<lambda>_.
        ret ())))
       blocked_then_runtime_error)"

definition microcloud_add :: "env \<Rightarrow> unit M" where
  "microcloud_add e =
     bnd (modify (unit_maintenance (Msg ''Adding node to MicroCloud''))) (\<lambda>_.
     try_except
       (bnd (subprocess_run e cmd_add True True (Some 600)) (\<lambda>_. ret ()))
       blocked_then_runtime_error)"

subsection \<open>Removal\<close>

text \<open>What \<^verbatim>\<open>for inst in instances\<close> iterates over, for each kind of JSON document.\<close>

fun iterate :: "json \<Rightarrow> exn + json list" where
  "iterate (JList xs) = Inr xs"
| "iterate (JDict kvs) = Inr (map (\<lambda>kv. JStr (fst kv)) kvs)"
| "iterate (JStr s) = Inr (map (\<lambda>c. JStr [c]) s)"
| "iterate _ = Inl TypeError"

text \<open>\<^verbatim>\<open>inst["location"]\<close>\<close>

fun inst_location :: "json \<Rightarrow> exn + json" where
  "inst_location (JDict kvs) =
     (case map_of kvs ''location'' of None \<Rightarrow> Inl KeyError | Some v \<Rightarrow> Inr v)"
| "inst_location _ = Inl TypeError"

text \<open>The loop over the instances: True when it meets an instance located on the node.\<close>

fun scan_instances :: "string \<Rightarrow> json list \<Rightarrow> exn + bool" where
  "scan_instances node [] = Inr False"
| "scan_instances node (inst # rest) =
     (case inst_location inst of
        Inl x \<Rightarrow> Inl x
      | Inr loc \<Rightarrow> if loc = JStr node then Inr True else scan_instances node rest)"

definition lift :: "(exn + 'a) \<Rightarrow> 'a M" where
  "lift r st = (r, st)"

text \<open>
  The body of the first \<^verbatim>\<open>try\<close> of \<^verbatim>\<open>microcloud_remove\<close>: True when the removal was
  refused (the function returns there).
\<close>

definition safety_check_body :: "env \<Rightarrow> string \<Rightarrow> bool M" where
  "safety_check_body e node =
     bnd (subprocess_run e cmd_list_instances True False None) (\<lambda>out.
     bnd (lift (case out of None \<Rightarrow> Inl TypeError | Some s \<Rightarrow> json_loads e s)) (\<lambda>instances.
     bnd (lift (iterate instances)) (\<lambda>insts.
     bnd (lift (scan_instances node insts)) (\<lambda>found.
     if found
     then bnd (modify (unit_blocked
                 (Msg ''This Microcloud unit contains instances. You can't remove it.'')))
            (\<lambda>_. ret True)
     else ret False))))"

definition safety_check :: "env \<Rightarrow> string \<Rightarrow> bool M" where
  "safety_check e node =
     try_except (safety_check_body e node)
       (\<lambda>x. case x of
              CalledProcessError c rc err \<Rightarrow>
                Some (bnd (modify (unit_blocked (Failed_to_remove node)))
                        (\<lambda>_. raise RuntimeError))
            | TimeoutExpired c \<Rightarrow>
                Some (bnd (modify (unit_blocked (Timeout_exceeded c)))
                        (\<lambda>_. raise RuntimeError))
            | _ \<Rightarrow> None)"

text \<open>The body of the second \<^verbatim>\<open>try\<close> of \<^verbatim>\<open>microcloud_remove\<close>.\<close>

definition removal_steps :: "env \<Rightarrow> string \<Rightarrow> unit M" where
  "removal_steps e node =
     bnd (subprocess_run e (cmd_remove_lxd node) True True (Some 600)) (\<lambda>_.
     bnd (stored_config_get ''snap-channel-microceph'') (\<lambda>microceph.
     bnd (if truthy microceph
          then bnd (subprocess_run e (cmd_remove_microceph node) True True (Some 600))
                 (\<lambda>_. ret ())
          else ret ()) (\<lambda>_.
     bnd (stored_config_get ''snap-channel-microovn'') (\<lambda>microovn.
     bnd (if truthy microovn
          then bnd (subprocess_run e (cmd_remove_microovn node) True True (Some 600))
                 (\<lambda>_. ret ())
          else ret ()) (\<lambda>_.
     bnd (subprocess_run e (cmd_remove_microcloud node) True True (Some 600)) (\<lambda>_.
     ret ()))))))"

definition microcloud_remove :: "env \<Rightarrow> string \<Rightarrow> unit M" where
  "microcloud_remove e node =
     bnd (safety_check e node) (\<lambda>refused.
     if refused then ret ()
     else bnd (modify (unit_maintenance (Msg ''Removing node from MicroCloud''))) (\<lambda>_.
          try_except (removal_steps e node) blocked_then_runtime_error))"

section \<open>Event handlers\<close>

text \<open>\<^verbatim>\<open>_on_cluster_relation_created\<close>\<close>

definition on_cluster_relation_created :: "unit M" where
  "on_cluster_relation_created st =
     set_peer_data_str (Some (self_unit st)) ''clustered'' ''False'' st"

text \<open>
  The first loop of \<^verbatim>\<open>_on_charm_start\<close>: is the \<^verbatim>\<open>clustered\<close> flag of some peer
  \<^verbatim>\<open>"True"\<close>? It stops at the first such peer.
\<close>

fun one_unit_clustered :: "relation \<Rightarrow> string list \<Rightarrow> exn + bool" where
  "one_unit_clustered r [] = Inr False"
| "one_unit_clustered r (u # us) =
     (case data r u of
        None \<Rightarrow> Inl KeyError
      | Some content \<Rightarrow>
          if content ''clustered'' = Some (PyStr ''True'') then Inr True
          else one_unit_clustered r us)"

text \<open>
  \<^verbatim>\<open>[self.peers.data[unit].get("clustered") == "False" for unit in self.peers.units]\<close>
\<close>

fun new_peers :: "relation \<Rightarrow> string list \<Rightarrow> exn + bool list" where
  "new_peers r [] = Inr []"
| "new_peers r (u # us) =
     (case data r u of
        None \<Rightarrow> Inl KeyError
      | Some content \<Rightarrow>
          (case new_peers r us of
             Inl x \<Rightarrow> Inl x
           | Inr bs \<Rightarrow> Inr ((content ''clustered'' = Some (PyStr ''False'')) # bs)))"

text \<open>
  The health probe and what follows it, in \<^verbatim>\<open>_on_charm_start\<close> when a peer is
  clustered.
\<close>

definition check_clustered :: "env \<Rightarrow> unit M" where
  "check_clustered e =
     try_except
       (bnd (subprocess_run e cmd_cluster_list False True (Some 600)) (\<lambda>_.
        bnd (\<lambda>st. set_peer_data_str (Some (self_unit st)) ''clustered'' ''True'' st) (\<lambda>_.
        modify unit_active)))
       (\<lambda>x. case x of
              CalledProcessError c rc err \<Rightarrow>
                Some (bnd (modify (unit_waiting (Msg ''This unit has not joined the cluster yet'')))
                        (\<lambda>_. modify event_defer))
            | TimeoutExpired c \<Rightarrow>
                Some (modify (unit_blocked
                        (Msg ''This unit timed out checking its clustered status'')))
            | _ \<Rightarrow> None)"

text \<open>The initialization attempt of \<^verbatim>\<open>_on_charm_start\<close>.\<close>

definition initialize :: "env \<Rightarrow> unit M" where
  "initialize e =
     try_except
       (bnd (microcloud_init e) (\<lambda>_.
        bnd (\<lambda>st. set_peer_data_str (Some (self_unit st)) ''clustered'' ''True'' st) (\<lambda>_.
        modify (unit_active))))
       (\<lambda>x. if x = RuntimeError
            then Some (modify (unit_blocked (Msg ''Failed to initialize MicroCloud'')))
            else None)"

text \<open>The end of \<^verbatim>\<open>_on_charm_start\<close>: wait (the ten seconds of sleep pass), defer.\<close>

definition wait_for_units :: "unit M" where
  "wait_for_units st =
     bnd (modify (unit_waiting
            (if is_leader st
             then Msg ''Leader needs to wait for all units to be ready to bootstrap''
             else Msg ''Unit needs to wait for all units to be ready to bootstrap'')))
       (\<lambda>_. modify event_defer) st"

text \<open>\<^verbatim>\<open>_on_charm_start\<close> from the first loop on.\<close>

definition start_resolve :: "env \<Rightarrow> unit M" where
  "start_resolve e st =
     (case peers st of
        None \<Rightarrow> raise AttributeError st
      | Some r \<Rightarrow>
          (case one_unit_clustered r (units r) of
             Inl x \<Rightarrow> raise x st
           | Inr True \<Rightarrow> check_clustered e st
           | Inr False \<Rightarrow>
               (case new_peers r (units r) of
                  Inl x \<Rightarrow> raise x st
                | Inr flags \<Rightarrow>
                    if is_leader st
                    then (case get_peer_data_str (Some (self_unit st)) ''clustered'' st of
                            Inl x \<Rightarrow> raise x st
                          | Inr own \<Rightarrow>
                              if own = ''False'' \<and> list_all id flags
                                 \<and> planned_units st = int (length (units r)) + 1
                              then initialize e st
                              else wait_for_units st)
                    else wait_for_units st)))"

text \<open>The first lines of \<^verbatim>\<open>_on_charm_start\<close>: pending configuration changes.\<close>

definition start_pending_config :: "env \<Rightarrow> unit M" where
  "start_pending_config e st =
     (if config_changed st \<noteq> [] then on_charm_config_changed e st else ret () st)"

definition on_charm_start :: "env \<Rightarrow> unit M" where
  "on_charm_start e = bnd (start_pending_config e) (\<lambda>_. start_resolve e)"

text \<open>\<^verbatim>\<open>_on_update_status\<close>\<close>

definition on_update_status :: "env \<Rightarrow> unit M" where
  "on_update_status e =
     try_except
       (bnd (subprocess_run e cmd_cluster_list False True (Some 600)) (\<lambda>_.
        bnd (\<lambda>st. set_peer_data_str (Some (self_unit st)) ''clustered'' ''True'' st) (\<lambda>_.
        modify unit_active)))
       (\<lambda>x. case x of
              CalledProcessError c rc err \<Rightarrow>
                Some (modify (unit_blocked (Msg ''This unit has failed to join the cluster'')))
            | TimeoutExpired c \<Rightarrow>
                Some (modify (unit_blocked
                        (Msg ''This unit timed out checking its clustered status'')))
            | _ \<Rightarrow> None)"

text \<open>
  \<^verbatim>\<open>_on_cluster_relation_joined\<close>; the argument is \<^verbatim>\<open>event.unit\<close>, a unit or None.
\<close>

definition on_cluster_relation_joined :: "env \<Rightarrow> string option \<Rightarrow> unit M" where
  "on_cluster_relation_joined e event_unit st =
     (if is_leader st
      then (case get_peer_data_str (Some (self_unit st)) ''clustered'' st of
              Inl x \<Rightarrow> raise x st
            | Inr own \<Rightarrow>
                if own = ''True'' \<and> event_unit \<noteq> Some (self_unit st)
                then try_except (microcloud_add e)
                       (\<lambda>x. if x = RuntimeError then Some (ret ()) else None) st
                else ret () st)
      else ret () st)"

text \<open>\<^verbatim>\<open>_on_charm_stop\<close>\<close>

definition on_charm_stop :: "env \<Rightarrow> unit M" where
  "on_charm_stop e st =
     (case get_peer_data_str (Some (self_unit st)) ''clustered'' st of
        Inl x \<Rightarrow> raise x st
      | Inr own \<Rightarrow>
          if own = ''True''
          then try_except (microcloud_remove e (nodename st))
                 (\<lambda>x. if x = RuntimeError then Some (ret ()) else None) st
          else ret () st)"

section \<open>Sequences of handler executions\<close>

datatype hook =
  Install
| Config_changed
| Start
| Update_status
| Stop
| Relation_created
| Relation_joined "string option"

text \<open>One handler execution is the handler of the hook run on a fresh event.\<close>

fun dispatch :: "env \<Rightarrow> hook \<Rightarrow> unit M" where
  "dispatch e Install = on_charm_install e"
| "dispatch e Config_changed = on_charm_config_changed e"
| "dispatch e Start = on_charm_start e"
| "dispatch e Update_status = on_update_status e"
| "dispatch e Stop = on_charm_stop e"
| "dispatch e Relation_created = on_cluster_relation_created"
| "dispatch e (Relation_joined u) = on_cluster_relation_joined e u"

text \<open>
  What the framework changes between two handler executions: leadership, the planned
  units, the configuration, and the peer relation: its creation, with an empty bag for the
  unit itself; the bag of a peer, as that peer wrote it (a peer not yet known joins the
  relation); the departure of a peer. Only the unit itself writes its own bag.
\<close>

datatype change =
  Leadership bool
| Planned_units int
| Configuration "(string \<times> pyval) list"
| Relation_established
| Peer_data string "string \<rightharpoonup> pyval"
| Peer_departed string

fun apply_change :: "change \<Rightarrow> charm \<Rightarrow> charm" where
  "apply_change (Leadership b) st = st\<lparr>is_leader := b\<rparr>"
| "apply_change (Planned_units n) st = st\<lparr>planned_units := n\<rparr>"
| "apply_change (Configuration c) st = st\<lparr>config := c\<rparr>"
| "apply_change Relation_established st =
     (case peers st of
        None \<Rightarrow> st\<lparr>peers := Some \<lparr>units = [], data = [self_unit st \<mapsto> Map.empty]\<rparr>\<rparr>
      | Some r \<Rightarrow> st)"
| "apply_change (Peer_data u content) st =
     (case peers st of
        None \<Rightarrow> st
      | Some r \<Rightarrow>
          if u = self_unit st then st
          else st\<lparr>peers := Some (r\<lparr>units := (if u \<in> set (units r) then units r
                                               else units r @ [u]),
                                     data := (data r)(u \<mapsto> content)\<rparr>)\<rparr>)"
| "apply_change (Peer_departed u) st =
     (case peers st of
        None \<Rightarrow> st
      | Some r \<Rightarrow>
          if u = self_unit st then st
          else st\<lparr>peers := Some (r\<lparr>units := removeAll u (units r),
                                     data := (data r)(u := None)\<rparr>)\<rparr>)"

text \<open>
  The life of a unit is a sequence of steps: a handler execution in the world it meets
  (the state it leaves counts, whether the handler returned or raised), or a change by
  the framework.
\<close>

datatype step = Handler env hook | Framework change

fun perform :: "step \<Rightarrow> charm \<Rightarrow> charm" where
  "perform (Handler e h) st = snd (dispatch e h (st\<lparr>deferred := False\<rparr>))"
| "perform (Framework c) st = apply_change c st"

fun perform_all :: "step list \<Rightarrow> charm \<Rightarrow> charm" where
  "perform_all [] st = st"
| "perform_all (s # ss) st = perform_all ss (perform s st)"

fun runs_relation_created :: "step \<Rightarrow> bool" where
  "runs_relation_created (Handler e h) = (h = Relation_created)"
| "runs_relation_created (Framework c) = False"

text \<open>
  The handlers that write \<^verbatim>\<open>"True"\<close> are start and update-status. The framework emits
  the relation-created event of a peer relation once, before start: in the life of a unit
  the relation-created handler never runs after a start or update-status handler.
\<close>

fun raises_flag :: "step \<Rightarrow> bool" where
  "raises_flag (Handler e h) = (h = Start \<or> h = Update_status)"
| "raises_flag (Framework c) = False"

fun framework_ordered :: "step list \<Rightarrow> bool" where
  "framework_ordered [] = True"
| "framework_ordered (s # ss) =
     (if raises_flag s then \<not> list_ex runs_relation_created ss else framework_ordered ss)"

text \<open>The commands that a computation issued: those after the ones of the state it started from.\<close>

definition issued :: "charm \<Rightarrow> charm \<Rightarrow> string list list" where
  "issued st st' = drop (length (cmds st)) (cmds st')"

text \<open>The unit's own \<^verbatim>\<open>clustered\<close> flag, as stored in its bag.\<close>

definition own_flag :: "charm \<Rightarrow> pyval option" where
  "own_flag st = stored_value st (self_unit st) ''clustered''"

section \<open>Notions used by the properties\<close>

text \<open>
  A command run with \<^verbatim>\<open>check=True, timeout=600\<close> succeeds when it ends in time with exit
  status zero.
\<close>

definition cmd_succeeds :: "env \<Rightarrow> string list \<Rightarrow> bool" where
  "cmd_succeeds e argv = (duration (run e argv) \<le> 600 \<and> returncode (run e argv) = 0)"

text \<open>The \<^verbatim>\<open>clustered\<close> flag a unit's bag holds in a relation.\<close>

definition peer_flag :: "relation \<Rightarrow> string \<Rightarrow> pyval option" where
  "peer_flag r u = (case data r u of None \<Rightarrow> None | Some content \<Rightarrow> content ''clustered'')"

text \<open>
  The four conditions of initialization: leader, own flag \<^verbatim>\<open>"False"\<close>, the flag of every
  known peer \<^verbatim>\<open>"False"\<close>, and as many units planned as there are known peers plus one.
\<close>

definition four_conditions :: "charm \<Rightarrow> bool" where
  "four_conditions st =
     (case peers st of
        None \<Rightarrow> False
      | Some r \<Rightarrow>
          is_leader st
          \<and> own_flag st = Some (PyStr ''False'')
          \<and> list_all (\<lambda>u. peer_flag r u = Some (PyStr ''False'')) (units r)
          \<and> planned_units st = int (length (units r)) + 1)"

definition some_peer_clustered :: "charm \<Rightarrow> bool" where
  "some_peer_clustered st =
     (case peers st of
        None \<Rightarrow> False
      | Some r \<Rightarrow> list_ex (\<lambda>u. peer_flag r u = Some (PyStr ''True'')) (units r))"

text \<open>The peer relation exists and holds a bag for the unit itself, and for every known peer.\<close>

definition bag_present :: "charm \<Rightarrow> string \<Rightarrow> bool" where
  "bag_present st b = (case peers st of None \<Rightarrow> False | Some r \<Rightarrow> data r b \<noteq> None)"

definition own_bag_present :: "charm \<Rightarrow> bool" where
  "own_bag_present st =
     (case peers st of None \<Rightarrow> False | Some r \<Rightarrow> data r (self_unit st) \<noteq> None)"

definition bags_present :: "charm \<Rightarrow> bool" where
  "bags_present st =
     (case peers st of
        None \<Rightarrow> False
      | Some r \<Rightarrow> data r (self_unit st) \<noteq> None \<and> list_all (\<lambda>u. data r u \<noteq> None) (units r))"

text \<open>
  The order of removal in the specification's words: the compute cluster, the storage
  subsystem if it was enabled, the network subsystem if it was enabled, the clustering
  tool. A subsystem is enabled by its toggle in the configuration
  (\<^verbatim>\<open>microceph_enabled = self.config["microceph"]\<close>, and the same for microovn). With
  it, the part of a list of commands that runs when each failure ends the run.
\<close>

definition subsystem_enabled :: "charm \<Rightarrow> string \<Rightarrow> bool" where
  "subsystem_enabled st name =
     (case map_of (config st) name of None \<Rightarrow> False | Some v \<Rightarrow> truthy v)"

definition removal_plan :: "charm \<Rightarrow> string \<Rightarrow> string list list" where
  "removal_plan st node =
     [cmd_remove_lxd node]
     @ (if subsystem_enabled st ''microceph'' then [cmd_remove_microceph node] else [])
     @ (if subsystem_enabled st ''microovn'' then [cmd_remove_microovn node] else [])
     @ [cmd_remove_microcloud node]"

fun upto_first_failure :: "env \<Rightarrow> string list list \<Rightarrow> string list list" where
  "upto_first_failure e [] = []"
| "upto_first_failure e (c # cs) =
     (if cmd_succeeds e c then c # upto_first_failure e cs else [c])"

text \<open>
  An inventory whose entries all are objects with a location, and an inventory with an
  entry located on the node.
\<close>

definition well_formed_inventory :: "json list \<Rightarrow> bool" where
  "well_formed_inventory insts =
     list_all (\<lambda>inst. case inst_location inst of Inl x \<Rightarrow> False | Inr loc \<Rightarrow> True) insts"

definition located_on :: "string \<Rightarrow> json list \<Rightarrow> bool" where
  "located_on node insts = list_ex (\<lambda>inst. inst_location inst = Inr (JStr node)) insts"

text \<open>
  The order of the values of the flag: unset, then \<^verbatim>\<open>"False"\<close> (or any value that is not
  \<^verbatim>\<open>"True"\<close>; no handler writes another one), then \<^verbatim>\<open>"True"\<close>.
\<close>

fun flag_rank :: "pyval option \<Rightarrow> nat" where
  "flag_rank None = 0"
| "flag_rank (Some v) = (if v = PyStr ''True'' then 2 else 1)"

definition flag_value :: "pyval option \<Rightarrow> bool" where
  "flag_value f = (f = None \<or> f = Some (PyStr ''False'') \<or> f = Some (PyStr ''True''))"

text \<open>
  What holds at every point of a life that the framework orders: the flag is unset,
  \<^verbatim>\<open>"False"\<close> or \<^verbatim>\<open>"True"\<close>; once it is \<^verbatim>\<open>"True"\<close> no relation-created handler is
  to come, and before that the rest of the life is ordered.
\<close>

definition life_invariant :: "charm \<Rightarrow> step list \<Rightarrow> bool" where
  "life_invariant st ss =
     (flag_value (own_flag st)
      \<and> (if own_flag st = Some (PyStr ''True'') then \<not> list_ex runs_relation_created ss
         else framework_ordered ss))"

subsection \<open>Relations between the state before and after a computation\<close>

definition keeps :: "(charm \<Rightarrow> charm \<Rightarrow> bool) \<Rightarrow> 'a M \<Rightarrow> bool" where
  "keeps R m = (\<forall>st. R st (snd (m st)))"

text \<open>The own flag is as it was, or \<^verbatim>\<open>"True"\<close>.\<close>

definition flag_raised :: "charm \<Rightarrow> charm \<Rightarrow> bool" where
  "flag_raised st st' =
     (self_unit st' = self_unit st
      \<and> (own_flag st' = own_flag st \<or> own_flag st' = Some (PyStr ''True'')))"

text \<open>The commands issued in between are among the given ones.\<close>

definition cmds_within :: "string list set \<Rightarrow> charm \<Rightarrow> charm \<Rightarrow> bool" where
  "cmds_within C st st' = (\<exists>new. cmds st' = cmds st @ new \<and> set new \<subseteq> C)"

text \<open>What the framework supplies is as it was, and the new commands are among the given ones.\<close>

definition view_kept :: "string list set \<Rightarrow> charm \<Rightarrow> charm \<Rightarrow> bool" where
  "view_kept C st st' =
     (self_unit st' = self_unit st \<and> is_leader st' = is_leader st
      \<and> planned_units st' = planned_units st \<and> peers st' = peers st
      \<and> config st' = config st \<and> nodename st' = nodename st
      \<and> cmds_within C st st')"

text \<open>
  The exception of a command run with \<^verbatim>\<open>check=True, timeout=600\<close> that does not
  succeed.
\<close>

definition failure_of :: "env \<Rightarrow> string list \<Rightarrow> bool \<Rightarrow> exn" where
  "failure_of e argv capture_output =
     (if 600 < duration (run e argv) then TimeoutExpired argv
      else CalledProcessError argv (returncode (run e argv))
             (if capture_output then Some (stderr (run e argv)) else None))"

subsection \<open>Scenarios\<close>

text \<open>
  A unit \<^verbatim>\<open>microcloud/0\<close> on host \<^verbatim>\<open>node0\<close> with the given leadership, own flag, peers
  (name and flag) and planned units, no configuration, and nothing done yet.
\<close>

definition bag_with :: "pyval option \<Rightarrow> (string \<rightharpoonup> pyval)" where
  "bag_with flag = (case flag of None \<Rightarrow> Map.empty | Some v \<Rightarrow> [''clustered'' \<mapsto> v])"

definition scenario :: "bool \<Rightarrow> pyval option \<Rightarrow> (string \<times> pyval option) list \<Rightarrow> int \<Rightarrow> charm" where
  "scenario leader own ps planned =
     \<lparr>self_unit = ''microcloud/0'', is_leader = leader, planned_units = planned,
      peers = Some \<lparr>units = map fst ps,
                    data = map_of ((''microcloud/0'', bag_with own)
                                   # map (\<lambda>p. (fst p, bag_with (snd p))) ps)\<rparr>,
      config = [], stored_config = Map.empty, nodename = ''node0'',
      status = UnknownStatus, cmds = [], deferred = False\<rparr>"

text \<open>Processes: one that succeeds at once with the given output, and one that fails.\<close>

definition proc_ok :: "string \<Rightarrow> proc" where
  "proc_ok out = \<lparr>duration = 1, returncode = 0, stdout = out, stderr = ''''\<rparr>"

definition proc_failed :: proc where
  "proc_failed = \<lparr>duration = 1, returncode = 1, stdout = '''', stderr = ''error''\<rparr>"

text \<open>A world with the given processes and JSON decoding, where every snap is installed.\<close>

definition world :: "(string list \<Rightarrow> proc) \<Rightarrow> (string \<Rightarrow> json option) \<Rightarrow> env" where
  "world procs decode =
     \<lparr>run = procs, installed = (\<lambda>_. True), snap_present = (\<lambda>_. True),
      snap_ensure_ok = (\<lambda>_. True),
      json_decode = decode, sideload_result = Inr (), sideload_status = None,
      sideload_cmds = []\<rparr>"

text \<open>
  Three units planned, leader \<^verbatim>\<open>microcloud/0\<close>: with both peers known and unclustered,
  and with one peer known only. A follower, one of two units, whose peer is clustered.
\<close>

definition trio_ready :: charm where
  "trio_ready = scenario True (Some (PyStr ''False''))
     [(''microcloud/1'', Some (PyStr ''False'')), (''microcloud/2'', Some (PyStr ''False''))] 3"

definition trio_incomplete :: charm where
  "trio_incomplete = scenario True (Some (PyStr ''False''))
     [(''microcloud/1'', Some (PyStr ''False''))] 3"

definition joiner :: charm where
  "joiner = scenario False (Some (PyStr ''False'')) [(''microcloud/1'', Some (PyStr ''True''))] 2"

text \<open>A clustered leader with both optional subsystems recorded in its stored configuration.\<close>

definition clustered_leader :: charm where
  "clustered_leader =
     (scenario True (Some (PyStr ''True'')) [(''microcloud/1'', Some (PyStr ''True''))] 2)
       \<lparr>stored_config := [''snap-channel-microceph'' \<mapsto> PyStr ''latest/stable'',
                           ''snap-channel-microovn'' \<mapsto> PyStr ''22.03/stable'']\<rparr>"

text \<open>Worlds: every command succeeds; only the initialization fails.\<close>

definition calm :: env where
  "calm = world (\<lambda>_. proc_ok '''') (\<lambda>_. None)"

definition init_fails :: env where
  "init_fails = world (\<lambda>argv. if argv = cmd_init then proc_failed else proc_ok '''') (\<lambda>_. None)"

text \<open>
  Inventories with one instance, on another host and on \<^verbatim>\<open>node0\<close>. A world where the
  listing prints a text that decodes to the given inventory and the given commands fail;
  a world where the listing itself fails and prints nothing.
\<close>

definition inventory_elsewhere :: "json list" where
  "inventory_elsewhere = [JDict [(''name'', JStr ''c1''), (''location'', JStr ''node1'')]]"

definition inventory_here :: "json list" where
  "inventory_here = [JDict [(''name'', JStr ''c1''), (''location'', JStr ''node0'')]]"

definition removal_world :: "json list \<Rightarrow> string list list \<Rightarrow> env" where
  "removal_world insts failing =
     world (\<lambda>argv. if argv = cmd_list_instances then proc_ok ''inventory''
                   else if argv \<in> set failing then proc_failed
                   else proc_ok '''')
           (\<lambda>_. Some (JList insts))"

definition listing_fails :: env where
  "listing_fails =
     world (\<lambda>argv. if argv = cmd_list_instances then proc_failed else proc_ok '''') (\<lambda>_. None)"

text \<open>A bag whose \<^verbatim>\<open>clustered\<close> entry is not a string.\<close>

definition odd_bag :: charm where
  "odd_bag = scenario False (Some (PyInt 1)) [] 1"

text \<open>
  A unit deployed with both optional subsystems disabled: its configuration, its state
  before the first hook (own flag unset, the peer clustered), the machine it is deployed
  on (no snap is present yet, every installation and command succeeds, and the
  executables of the optional snaps, which the installation leaves out, are missing), the
  hooks that bring it into the cluster, and the state they leave. A world for its removal: the inventory is
  elsewhere, every command that starts succeeds, and the executables of the optional
  snaps, which were never installed, are missing.
\<close>

definition plain_config :: "(string \<times> pyval) list" where
  "plain_config =
     [(''snap-channel-lxd'', PyStr ''5.21/stable''),
      (''snap-channel-microcloud'', PyStr ''latest/stable''),
      (''snap-channel-microceph'', PyStr ''latest/stable''),
      (''snap-channel-microovn'', PyStr ''22.03/stable''),
      (''microceph'', PyBool False),
      (''microovn'', PyBool False)]"

definition plain_unit :: charm where
  "plain_unit =
     (scenario False None [(''microcloud/1'', Some (PyStr ''True''))] 2)\<lparr>config := plain_config\<rparr>"

definition fresh_machine :: env where
  "fresh_machine = calm\<lparr>installed := (\<lambda>_. False), snap_present := (\<lambda>_. False)\<rparr>"

definition plain_life :: "step list" where
  "plain_life =
     [Handler fresh_machine Install, Handler fresh_machine Relation_created,
      Handler fresh_machine Update_status]"

definition plain_deployed :: charm where
  "plain_deployed = perform_all plain_life plain_unit"

definition bare_world :: env where
  "bare_world = (removal_world inventory_elsewhere [])\<lparr>installed := (\<lambda>_. False)\<rparr>"

text \<open>A clustered leader with both optional subsystems enabled and their channels stored.\<close>

definition full_leader :: charm where
  "full_leader =
     clustered_leader\<lparr>config := [(''microceph'', PyBool True), (''microovn'', PyBool True)]\<rparr>"

text \<open>A new follower, its flag unset, and a life in the framework's order.\<close>

definition newcomer :: charm where
  "newcomer = scenario False None [(''microcloud/1'', Some (PyStr ''True''))] 2"

definition newcomer_before :: "step list" where
  "newcomer_before = [Handler calm Relation_created]"

definition newcomer_after :: "step list" where
  "newcomer_after =
     [Framework (Leadership True), Handler calm Start, Handler calm Update_status,
      Handler calm (Relation_joined (Some ''microcloud/2''))]"

section \<open>Relations kept by the computations\<close>

lemma keepsD: "keeps R m \<Longrightarrow> R st (snd (m st))"
  by (simp add: keeps_def)

lemma keepsI: "(\<And>st. R st (snd (m st))) \<Longrightarrow> keeps R m"
  by (simp add: keeps_def)

lemma keeps_ret: "reflp R \<Longrightarrow> keeps R (ret v)"
  by (simp add: keeps_def ret_def reflpD)

lemma keeps_raise: "reflp R \<Longrightarrow> keeps R (raise x)"
  by (simp add: keeps_def raise_def reflpD)

lemma keeps_lift: "reflp R \<Longrightarrow> keeps R (lift x)"
  by (simp add: keeps_def lift_def reflpD)

lemma keeps_modify: "(\<And>st. R st (f st)) \<Longrightarrow> keeps R (modify f)"
  by (simp add: keeps_def modify_def)

lemma keeps_bnd:
  assumes "transp R" and "keeps R m" and "\<And>v. keeps R (f v)"
  shows "keeps R (bnd m f)"
proof (rule keepsI)
  fix st
  obtain r st1 where m: "m st = (r, st1)" by (cases "m st")
  have 1: "R st st1" using keepsD[OF assms(2), of st] m by simp
  show "R st (snd (bnd m f st))"
  proof (cases r)
    case (Inl x)
    then show ?thesis using m 1 by (simp add: bnd_def)
  next
    case (Inr v)
    have "R st1 (snd (f v st1))" using keepsD[OF assms(3)] .
    then show ?thesis using m 1 Inr assms(1) by (auto simp: bnd_def dest: transpD)
  qed
qed

lemma keeps_try_except:
  assumes "transp R" and "keeps R m" and "\<And>x h. handler x = Some h \<Longrightarrow> keeps R h"
  shows "keeps R (try_except m handler)"
proof (rule keepsI)
  fix st
  obtain r st1 where m: "m st = (r, st1)" by (cases "m st")
  have 1: "R st st1" using keepsD[OF assms(2), of st] m by simp
  show "R st (snd (try_except m handler st))"
  proof (cases r)
    case (Inr v)
    then show ?thesis using m 1 by (simp add: try_except_def)
  next
    case (Inl x)
    show ?thesis
    proof (cases "handler x")
      case None
      then show ?thesis using m 1 Inl by (simp add: try_except_def)
    next
      case (Some h)
      have "R st1 (snd (h st1))" using keepsD[OF assms(3)[OF Some]] .
      then show ?thesis using m 1 Inl Some assms(1) by (auto simp: try_except_def dest: transpD)
    qed
  qed
qed

lemma reflp_flag_raised: "reflp flag_raised"
  by (simp add: reflp_def flag_raised_def)

lemma transp_flag_raised: "transp flag_raised"
  by (auto simp: transp_def flag_raised_def)

lemma reflp_view_kept: "reflp (view_kept C)"
  by (simp add: reflp_def view_kept_def cmds_within_def)

lemma reflp_cmds_within: "reflp (cmds_within C)"
  by (simp add: reflp_def cmds_within_def)

lemma transp_cmds_within: "transp (cmds_within C)"
  by (auto simp: transp_def cmds_within_def)

lemma transp_view_kept: "transp (view_kept C)"
  using transp_cmds_within[of C] by (auto simp: transp_def view_kept_def)

text \<open>The basic operations leave the own flag as it was, or set it to \<^verbatim>\<open>"True"\<close>.\<close>

lemma own_flag_eqI:
  "peers st' = peers st \<Longrightarrow> self_unit st' = self_unit st \<Longrightarrow> flag_raised st st'"
  by (simp add: flag_raised_def own_flag_def stored_value_def)

lemma fr_modify_status:
  "keeps flag_raised (modify unit_active)"
  "keeps flag_raised (modify (unit_blocked m))"
  "keeps flag_raised (modify (unit_maintenance m))"
  "keeps flag_raised (modify (unit_waiting m))"
  "keeps flag_raised (modify event_defer)"
  by (rule keeps_modify, simp add: own_flag_eqI unit_active_def unit_blocked_def
      unit_maintenance_def unit_waiting_def event_defer_def)+

lemma fr_subprocess_run: "keeps flag_raised (subprocess_run e argv c k t)"
  by (rule keepsI) (simp add: subprocess_run_def Let_def own_flag_eqI)

lemma fr_config_get: "keeps flag_raised (config_get k)"
  by (rule keepsI) (simp add: config_get_def own_flag_eqI reflpD[OF reflp_flag_raised] split: option.splits)

lemma fr_stored_config_get: "keeps flag_raised (stored_config_get k)"
  by (rule keepsI) (simp add: stored_config_get_def reflpD[OF reflp_flag_raised] split: option.splits)

lemma fr_stored_config_set: "keeps flag_raised (stored_config_set k v)"
  by (rule keepsI) (simp add: stored_config_set_def own_flag_eqI)

lemma fr_resource_sideload: "keeps flag_raised (resource_sideload e)"
  by (rule keepsI) (simp add: resource_sideload_def own_flag_eqI)

lemma fr_set_true:
  "keeps flag_raised (\<lambda>st. set_peer_data_str (Some (self_unit st)) ''clustered'' ''True'' st)"
  by (rule keepsI)
     (auto simp: set_peer_data_str_def get_peer_data_str_def store_peer_data_def flag_raised_def
        own_flag_def stored_value_def split: option.splits pyval.splits sum.splits)

lemmas fr_basic = fr_modify_status fr_subprocess_run fr_config_get fr_stored_config_get
  fr_stored_config_set fr_resource_sideload fr_set_true
  keeps_ret[OF reflp_flag_raised] keeps_raise[OF reflp_flag_raised] keeps_lift[OF reflp_flag_raised]

lemmas fr_bnd = keeps_bnd[OF transp_flag_raised]
lemmas fr_try = keeps_try_except[OF transp_flag_raised]

lemma fr_snap_ensure: "keeps flag_raised (snap_ensure e n)"
  by (simp add: snap_ensure_def fr_basic)

lemma fr_ensure_if_absent: "keeps flag_raised (ensure_if_absent e n k)"
  by (simp add: ensure_if_absent_def fr_basic fr_bnd fr_snap_ensure)

lemma fr_remember_config: "keeps flag_raised (remember_config k)"
  by (simp add: remember_config_def fr_basic fr_bnd)

lemma fr_snap_install: "keeps flag_raised (snap_install_microcloud e)"
  unfolding snap_install_microcloud_def
  by (intro fr_bnd fr_try fr_basic fr_snap_ensure fr_ensure_if_absent fr_remember_config)
     (auto simp: fr_basic fr_bnd fr_ensure_if_absent split: if_splits)

section \<open>No handler but relation-created lowers the own flag\<close>

lemma fr_blocked_then_runtime_error:
  "blocked_then_runtime_error x = Some h \<Longrightarrow> keeps flag_raised h"
  by (auto simp: blocked_then_runtime_error_def fr_basic fr_bnd split: exn.splits)

lemma fr_microcloud_init: "keeps flag_raised (microcloud_init e)"
  unfolding microcloud_init_def
  by (intro fr_bnd fr_try fr_basic) (erule fr_blocked_then_runtime_error)

lemma fr_microcloud_add: "keeps flag_raised (microcloud_add e)"
  unfolding microcloud_add_def
  by (intro fr_bnd fr_try fr_basic) (erule fr_blocked_then_runtime_error)

lemma fr_safety_check: "keeps flag_raised (safety_check e node)"
  unfolding safety_check_def safety_check_body_def
  by (intro fr_bnd fr_try fr_basic) (auto simp: fr_basic fr_bnd split: exn.splits)

lemma fr_removal_steps: "keeps flag_raised (removal_steps e node)"
  unfolding removal_steps_def
  by (intro fr_bnd fr_basic) (auto simp: fr_basic fr_bnd)

lemma fr_microcloud_remove: "keeps flag_raised (microcloud_remove e node)"
  unfolding microcloud_remove_def
  by (intro fr_bnd fr_safety_check)
     (auto intro!: fr_bnd fr_try fr_basic fr_removal_steps elim: fr_blocked_then_runtime_error)

lemma fr_install: "keeps flag_raised (on_charm_install e)"
proof (rule keepsI)
  fix st
  have "keeps flag_raised (install_after_validation e)"
    unfolding install_after_validation_def
    by (intro fr_bnd fr_try fr_basic fr_snap_install)
       (auto intro!: fr_bnd fr_basic split: if_splits)
  then show "flag_raised st (snd (on_charm_install e st))"
    by (simp add: on_charm_install_def config_is_valid_def keepsD)
qed

lemma fr_config_changed: "keeps flag_raised (on_charm_config_changed e)"
proof (rule keepsI)
  fix st
  have "keeps flag_raised (try_except (snap_install_microcloud e)
             (\<lambda>x. if x = RuntimeError
                  then Some (bnd (modify (unit_blocked (Failed_to_apply c)))
                               (\<lambda>_. modify event_defer))
                  else None))" for c
    by (intro fr_try fr_snap_install) (auto intro!: fr_bnd fr_basic split: if_splits)
  then show "flag_raised st (snd (on_charm_config_changed e st))"
    by (auto simp: on_charm_config_changed_def config_changed_after_validation_def
        config_is_valid_def Let_def ret_def keepsD reflpD[OF reflp_flag_raised])
qed

lemma fr_check_clustered: "keeps flag_raised (check_clustered e)"
  unfolding check_clustered_def
  by (intro fr_bnd fr_try fr_basic) (auto intro!: fr_bnd fr_basic split: exn.splits)

lemma fr_update_status: "keeps flag_raised (on_update_status e)"
  unfolding on_update_status_def
  by (intro fr_bnd fr_try fr_basic) (auto intro!: fr_bnd fr_basic split: exn.splits)

lemma fr_initialize: "keeps flag_raised (initialize e)"
  unfolding initialize_def
  by (intro fr_bnd fr_try fr_basic fr_microcloud_init) (auto intro!: fr_basic split: if_splits)

lemma fr_wait: "keeps flag_raised wait_for_units"
proof (rule keepsI)
  fix st
  have "keeps flag_raised (bnd (modify (unit_waiting m)) (\<lambda>_. modify event_defer))" for m
    by (intro fr_bnd fr_basic)
  then show "flag_raised st (snd (wait_for_units st))"
    unfolding wait_for_units_def by (rule keepsD)
qed

lemma fr_start_resolve: "keeps flag_raised (start_resolve e)"
proof (rule keepsI)
  fix st
  note k = keepsD[OF fr_check_clustered] keepsD[OF fr_initialize] keepsD[OF fr_wait]
  show "flag_raised st (snd (start_resolve e st))"
    by (auto simp: start_resolve_def raise_def k reflpD[OF reflp_flag_raised]
        split: option.splits sum.splits bool.splits)
qed

lemma fr_start: "keeps flag_raised (on_charm_start e)"
proof -
  have "keeps flag_raised (start_pending_config e)"
    by (rule keepsI)
       (simp add: start_pending_config_def ret_def keepsD[OF fr_config_changed]
          reflpD[OF reflp_flag_raised])
  then show ?thesis
    unfolding on_charm_start_def by (intro fr_bnd fr_start_resolve)
qed

lemma fr_joined: "keeps flag_raised (on_cluster_relation_joined e u)"
proof (rule keepsI)
  fix st
  have "keeps flag_raised (try_except (microcloud_add e)
                       (\<lambda>x. if x = RuntimeError then Some (ret ()) else None))"
    by (intro fr_try fr_microcloud_add) (auto intro!: fr_basic split: if_splits)
  then show "flag_raised st (snd (on_cluster_relation_joined e u st))"
    by (auto simp: on_cluster_relation_joined_def raise_def ret_def keepsD
        reflpD[OF reflp_flag_raised] split: sum.splits)
qed

lemma fr_stop: "keeps flag_raised (on_charm_stop e)"
proof (rule keepsI)
  fix st
  have "keeps flag_raised (try_except (microcloud_remove e n)
                       (\<lambda>x. if x = RuntimeError then Some (ret ()) else None))" for n
    by (intro fr_try fr_microcloud_remove) (auto intro!: fr_basic split: if_splits)
  then show "flag_raised st (snd (on_charm_stop e st))"
    by (auto simp: on_charm_stop_def raise_def ret_def keepsD
        reflpD[OF reflp_flag_raised] split: sum.splits)
qed

lemma fr_dispatch: "h \<noteq> Relation_created \<Longrightarrow> keeps flag_raised (dispatch e h)"
  by (cases h) (simp_all add: fr_install fr_config_changed fr_start fr_update_status fr_stop fr_joined)

lemma fr_apply_change: "flag_raised st (apply_change c st)"
  by (cases c)
     (auto simp: flag_raised_def own_flag_def stored_value_def split: option.splits)

lemma fr_perform: "\<not> runs_relation_created s \<Longrightarrow> flag_raised st (perform s st)"
proof (cases s)
  case (Handler e h)
  assume "\<not> runs_relation_created s"
  then have a: "h \<noteq> Relation_created" using Handler by simp
  have 1: "flag_raised st (st\<lparr>deferred := False\<rparr>)" by (simp add: own_flag_eqI)
  have 2: "flag_raised (st\<lparr>deferred := False\<rparr>) (perform s st)"
    unfolding Handler perform.simps by (rule keepsD[OF fr_dispatch[OF a]])
  show ?thesis using 1 2 transp_flag_raised by (blast dest: transpD)
next
  case (Framework c)
  then show ?thesis by (simp add: fr_apply_change)
qed

lemma fr_perform_all:
  "\<not> list_ex runs_relation_created ss \<Longrightarrow> flag_raised st (perform_all ss st)"
proof (induction ss arbitrary: st)
  case Nil
  then show ?case by (simp add: reflpD[OF reflp_flag_raised])
next
  case (Cons s ss)
  have 1: "flag_raised st (perform s st)" using Cons.prems by (intro fr_perform) simp
  have 2: "flag_raised (perform s st) (perform_all ss (perform s st))"
    using Cons.prems by (intro Cons.IH) simp
  show ?case using 1 2 transp_flag_raised by (auto dest: transpD)
qed

lemmas monad_defs = ret_def raise_def modify_def bnd_def try_except_def lift_def

lemmas status_defs = unit_active_def unit_blocked_def unit_maintenance_def unit_waiting_def
  event_defer_def

lemmas store_defs = get_peer_data_str_def set_peer_data_str_def store_peer_data_def
  stored_value_def own_flag_def peer_flag_def

lemmas scenario_defs = scenario_def bag_with_def world_def proc_ok_def proc_failed_def

section \<open>Commands issued and the view of the cluster\<close>

text \<open>Which commands the computations issue.\<close>

lemma cw_same: "cmds st' = cmds st \<Longrightarrow> cmds_within C st st'"
  by (simp add: cmds_within_def)

lemma cw_issued: "cmds_within C st st' \<Longrightarrow> set (issued st st') \<subseteq> C"
  by (auto simp: cmds_within_def issued_def)

lemma cw_modify_status:
  "keeps (cmds_within C) (modify unit_active)"
  "keeps (cmds_within C) (modify (unit_blocked m))"
  "keeps (cmds_within C) (modify (unit_maintenance m))"
  "keeps (cmds_within C) (modify (unit_waiting m))"
  "keeps (cmds_within C) (modify event_defer)"
  by (rule keeps_modify, simp add: cw_same status_defs)+

lemma cw_subprocess_run: "argv \<in> C \<Longrightarrow> keeps (cmds_within C) (subprocess_run e argv c k t)"
  by (rule keepsI) (simp add: subprocess_run_def Let_def cmds_within_def)

lemma set_peer_data_str_cmds: "cmds (snd (set_peer_data_str b k v st)) = cmds st"
  by (auto simp: set_peer_data_str_def store_peer_data_def split: option.splits sum.splits)

lemma cw_set_peer_data_str:
  "keeps (cmds_within C) (\<lambda>st. set_peer_data_str (Some (self_unit st)) k v st)"
  by (rule keepsI) (simp add: cw_same set_peer_data_str_cmds)

lemma cw_stored_config_get: "keeps (cmds_within C) (stored_config_get k)"
  by (rule keepsI) (simp add: stored_config_get_def cw_same split: option.splits)

lemmas cw_basic = cw_modify_status cw_set_peer_data_str cw_stored_config_get
  keeps_ret[OF reflp_cmds_within] keeps_raise[OF reflp_cmds_within]
  keeps_lift[OF reflp_cmds_within]

lemmas cw_bnd = keeps_bnd[OF transp_cmds_within]
lemmas cw_try = keeps_try_except[OF transp_cmds_within]

lemma cw_blocked_then_runtime_error:
  "blocked_then_runtime_error x = Some h \<Longrightarrow> keeps (cmds_within C) h"
  by (auto simp: blocked_then_runtime_error_def cw_basic cw_bnd split: exn.splits)

lemma cw_microcloud_init: "keeps (cmds_within {cmd_init, cmd_enable_rgw}) (microcloud_init e)"
  unfolding microcloud_init_def
  by (intro cw_bnd cw_try cw_basic cw_subprocess_run)
     (auto elim: cw_blocked_then_runtime_error)

lemma cw_initialize: "keeps (cmds_within {cmd_init, cmd_enable_rgw}) (initialize e)"
  unfolding initialize_def
  by (intro cw_bnd cw_try cw_basic cw_microcloud_init) (auto intro!: cw_basic split: if_splits)

lemma cw_check_clustered: "keeps (cmds_within {cmd_cluster_list}) (check_clustered e)"
  unfolding check_clustered_def
  by (intro cw_bnd cw_try cw_basic cw_subprocess_run)
     (auto intro!: cw_bnd cw_basic split: exn.splits)

lemma cw_wait: "keeps (cmds_within {}) wait_for_units"
  by (rule keepsI) (simp add: wait_for_units_def monad_defs status_defs cw_same)

text \<open>
  The handling of pending configuration changes leaves what the framework supplies and the
  peer relation as they were, and issues no command but the two of the snap installation.
\<close>

lemma vk_fields:
  "self_unit st' = self_unit st \<Longrightarrow> is_leader st' = is_leader st \<Longrightarrow>
   planned_units st' = planned_units st \<Longrightarrow> peers st' = peers st \<Longrightarrow>
   config st' = config st \<Longrightarrow> nodename st' = nodename st \<Longrightarrow> cmds st' = cmds st \<Longrightarrow>
   view_kept C st st'"
  by (simp add: view_kept_def cw_same)

lemma vk_modify_status:
  "keeps (view_kept C) (modify unit_active)"
  "keeps (view_kept C) (modify (unit_blocked m))"
  "keeps (view_kept C) (modify (unit_maintenance m))"
  "keeps (view_kept C) (modify (unit_waiting m))"
  "keeps (view_kept C) (modify event_defer)"
  by (rule keeps_modify, simp add: vk_fields status_defs)+

lemma vk_subprocess_run: "argv \<in> C \<Longrightarrow> keeps (view_kept C) (subprocess_run e argv c k t)"
  by (rule keepsI) (simp add: subprocess_run_def Let_def view_kept_def cmds_within_def)

lemma vk_config_get: "keeps (view_kept C) (config_get k)"
  by (rule keepsI) (simp add: config_get_def reflpD[OF reflp_view_kept] split: option.splits)

lemma vk_stored_config_set: "keeps (view_kept C) (stored_config_set k v)"
  by (rule keepsI) (simp add: stored_config_set_def vk_fields)

lemmas vk_basic = vk_modify_status vk_config_get vk_stored_config_set
  keeps_ret[OF reflp_view_kept] keeps_raise[OF reflp_view_kept]

lemmas vk_bnd = keeps_bnd[OF transp_view_kept]
lemmas vk_try = keeps_try_except[OF transp_view_kept]

lemma vk_snap_ensure: "keeps (view_kept C) (snap_ensure e n)"
  by (simp add: snap_ensure_def vk_basic)

lemma vk_ensure_if_absent: "keeps (view_kept C) (ensure_if_absent e n k)"
  by (simp add: ensure_if_absent_def vk_basic vk_bnd vk_snap_ensure)

lemma vk_remember_config: "keeps (view_kept C) (remember_config k)"
  by (simp add: remember_config_def vk_basic vk_bnd)

lemma vk_snap_install:
  "keeps (view_kept {cmd_rm_etc_ceph, cmd_ln_etc_ceph}) (snap_install_microcloud e)"
  unfolding snap_install_microcloud_def
  by (intro vk_bnd vk_try vk_basic vk_snap_ensure vk_ensure_if_absent vk_remember_config)
     (auto simp: vk_basic vk_bnd vk_ensure_if_absent vk_subprocess_run split: if_splits)

lemma vk_config_changed:
  "keeps (view_kept {cmd_rm_etc_ceph, cmd_ln_etc_ceph}) (on_charm_config_changed e)"
proof (rule keepsI)
  fix st
  have "keeps (view_kept {cmd_rm_etc_ceph, cmd_ln_etc_ceph})
          (try_except (snap_install_microcloud e)
             (\<lambda>x. if x = RuntimeError
                  then Some (bnd (modify (unit_blocked (Failed_to_apply c)))
                               (\<lambda>_. modify event_defer))
                  else None))" for c
    by (intro vk_try vk_snap_install) (auto intro!: vk_bnd vk_basic split: if_splits)
  then show "view_kept {cmd_rm_etc_ceph, cmd_ln_etc_ceph} st (snd (on_charm_config_changed e st))"
    by (auto simp: on_charm_config_changed_def config_changed_after_validation_def
        config_is_valid_def Let_def ret_def keepsD reflpD[OF reflp_view_kept])
qed

lemma vk_start_pending_config:
  "view_kept {cmd_rm_etc_ceph, cmd_ln_etc_ceph} st (snd (start_pending_config e st))"
  by (simp add: start_pending_config_def ret_def keepsD[OF vk_config_changed]
      reflpD[OF reflp_view_kept])

text \<open>The two loops of the start handler over the peers.\<close>

lemma one_unit_clustered_True:
  "one_unit_clustered r us = Inr True \<Longrightarrow> list_ex (\<lambda>u. peer_flag r u = Some (PyStr ''True'')) us"
  by (induction us) (auto simp: peer_flag_def split: option.splits if_splits)

lemma one_unit_clustered_False:
  "one_unit_clustered r us = Inr False \<Longrightarrow>
     \<not> list_ex (\<lambda>u. peer_flag r u = Some (PyStr ''True'')) us"
  by (induction us) (auto simp: peer_flag_def split: option.splits if_splits)

lemma one_unit_clustered_total:
  "list_all (\<lambda>u. data r u \<noteq> None) us \<Longrightarrow>
     one_unit_clustered r us = Inr (list_ex (\<lambda>u. peer_flag r u = Some (PyStr ''True'')) us)"
  by (induction us) (auto simp: peer_flag_def split: option.splits)

lemma new_peers_flags:
  "new_peers r us = Inr flags \<Longrightarrow>
     list_all id flags = list_all (\<lambda>u. peer_flag r u = Some (PyStr ''False'')) us"
  by (induction us arbitrary: flags) (auto simp: peer_flag_def split: option.splits sum.splits)

lemma new_peers_total:
  "list_all (\<lambda>u. data r u \<noteq> None) us \<Longrightarrow> \<exists>flags. new_peers r us = Inr flags"
  by (induction us) (auto split: option.splits sum.splits)

section \<open>The start handler\<close>

lemma not_missing [simp]:
  "\<not> executable_missing e cmd_cluster_list" "\<not> executable_missing e cmd_init"
  "\<not> executable_missing e cmd_add" "\<not> executable_missing e cmd_list_instances"
  "\<not> executable_missing e (cmd_remove_lxd node)"
  "\<not> executable_missing e (cmd_remove_microcloud node)"
  by (simp_all add: executable_missing_def optional_executables_def cmd_cluster_list_def
      cmd_init_def cmd_add_def cmd_list_instances_def cmd_remove_lxd_def
      cmd_remove_microcloud_def)

lemma run_checked:
  "\<not> executable_missing e argv \<Longrightarrow>
   subprocess_run e argv c True (Some 600) st =
     (if cmd_succeeds e argv then Inr (if c then Some (stdout (run e argv)) else None)
      else Inl (failure_of e argv c),
      st\<lparr>cmds := cmds st @ [argv]\<rparr>)"
  by (auto simp: subprocess_run_def cmd_succeeds_def failure_of_def Let_def)

lemma own_flag_cong:
  "peers st' = peers st \<Longrightarrow> self_unit st' = self_unit st \<Longrightarrow> own_flag st' = own_flag st"
  by (simp add: own_flag_def stored_value_def)

lemma own_bag_present_cong:
  "peers st' = peers st \<Longrightarrow> self_unit st' = self_unit st \<Longrightarrow>
     own_bag_present st' = own_bag_present st"
  by (simp add: own_bag_present_def split: option.splits)

lemma own_flag_upd [simp]:
  "own_flag (st\<lparr>status := s\<rparr>) = own_flag st"
  "own_flag (st\<lparr>cmds := c\<rparr>) = own_flag st"
  "own_flag (st\<lparr>deferred := d\<rparr>) = own_flag st"
  by (rule own_flag_cong; simp)+

lemma own_bag_present_upd [simp]:
  "own_bag_present (st\<lparr>status := s\<rparr>) = own_bag_present st"
  "own_bag_present (st\<lparr>cmds := c\<rparr>) = own_bag_present st"
  "own_bag_present (st\<lparr>deferred := d\<rparr>) = own_bag_present st"
  by (rule own_bag_present_cong; simp)+

lemma four_conditions_cong:
  "peers st' = peers st \<Longrightarrow> self_unit st' = self_unit st \<Longrightarrow> is_leader st' = is_leader st \<Longrightarrow>
   planned_units st' = planned_units st \<Longrightarrow> four_conditions st' = four_conditions st"
  using own_flag_cong[of st' st] by (simp add: four_conditions_def split: option.splits)

lemma set_true_result:
  "own_bag_present st \<Longrightarrow>
   set_peer_data_str (Some (self_unit st)) ''clustered'' ''True'' st = (r, st') \<Longrightarrow>
   r = Inr () \<and> own_flag st' = Some (PyStr ''True'') \<and> status st' = status st
   \<and> cmds st' = cmds st \<and> deferred st' = deferred st \<and> self_unit st' = self_unit st"
  by (auto simp: own_bag_present_def store_defs split: option.splits sum.splits pyval.splits if_splits)

lemma check_clustered_ok:
  assumes "cmd_succeeds e cmd_cluster_list" and "own_bag_present st"
  shows "fst (check_clustered e st) = Inr ()
       \<and> own_flag (snd (check_clustered e st)) = Some (PyStr ''True'')
       \<and> status (snd (check_clustered e st)) = ActiveStatus"
proof -
  let ?s1 = "st\<lparr>cmds := cmds st @ [cmd_cluster_list]\<rparr>"
  obtain r st' where s: "set_peer_data_str (Some (self_unit ?s1)) ''clustered'' ''True'' ?s1 = (r, st')"
    by (cases "set_peer_data_str (Some (self_unit ?s1)) ''clustered'' ''True'' ?s1")
  have "own_bag_present ?s1" using assms(2) by simp
  from set_true_result[OF this s] show ?thesis using s assms(1)
    by (simp add: check_clustered_def run_checked monad_defs status_defs)
qed

lemma update_status_ok:
  assumes "cmd_succeeds e cmd_cluster_list" and "own_bag_present st"
  shows "fst (on_update_status e st) = Inr ()
       \<and> own_flag (snd (on_update_status e st)) = Some (PyStr ''True'')
       \<and> status (snd (on_update_status e st)) = ActiveStatus"
proof -
  let ?s1 = "st\<lparr>cmds := cmds st @ [cmd_cluster_list]\<rparr>"
  obtain r st' where s: "set_peer_data_str (Some (self_unit ?s1)) ''clustered'' ''True'' ?s1 = (r, st')"
    by (cases "set_peer_data_str (Some (self_unit ?s1)) ''clustered'' ''True'' ?s1")
  have "own_bag_present ?s1" using assms(2) by simp
  from set_true_result[OF this s] show ?thesis using s assms(1)
    by (simp add: on_update_status_def run_checked monad_defs status_defs)
qed

text \<open>The branch that the start handler takes after the pending configuration changes.\<close>

lemma get_own_flag:
  "get_peer_data_str (Some (self_unit st)) ''clustered'' st = Inr own \<Longrightarrow>
     (own = ''False'') = (own_flag st = Some (PyStr ''False''))"
  "get_peer_data_str (Some (self_unit st)) ''clustered'' st = Inr own \<Longrightarrow>
     (own = ''True'') = (own_flag st = Some (PyStr ''True''))"
  by (auto simp: store_defs split: option.splits pyval.splits if_splits)

lemma start_resolve_branches:
  "start_resolve e st = check_clustered e st \<and> some_peer_clustered st
   \<or> start_resolve e st = initialize e st \<and> four_conditions st \<and> \<not> some_peer_clustered st
   \<or> start_resolve e st = wait_for_units st \<and> \<not> four_conditions st \<and> \<not> some_peer_clustered st
   \<or> (\<exists>x. start_resolve e st = (Inl x, st))"
proof (cases "peers st")
  case None
  then show ?thesis by (simp add: start_resolve_def raise_def)
next
  case (Some r)
  show ?thesis
  proof (cases "one_unit_clustered r (units r)")
    case (Inl x)
    then show ?thesis using Some by (simp add: start_resolve_def raise_def)
  next
    case (Inr b)
    show ?thesis
    proof (cases b)
      case True
      then show ?thesis using Some Inr one_unit_clustered_True[of r "units r"]
        by (simp add: start_resolve_def some_peer_clustered_def)
    next
      case False
      then have npc: "\<not> some_peer_clustered st"
        using Some Inr one_unit_clustered_False[of r "units r"]
        by (simp add: some_peer_clustered_def)
      show ?thesis
      proof (cases "new_peers r (units r)")
        case (Inl x)
        then show ?thesis using Some Inr False by (simp add: start_resolve_def raise_def)
      next
        case flags: (Inr flags)
        note nf = new_peers_flags[OF flags]
        show ?thesis
        proof (cases "is_leader st")
          case nl: False
          then show ?thesis using Some Inr False flags npc
            by (simp add: start_resolve_def four_conditions_def)
        next
          case l: True
          show ?thesis
          proof (cases "get_peer_data_str (Some (self_unit st)) ''clustered'' st")
            case (Inl x)
            then show ?thesis using Some Inr False flags l
              by (simp add: start_resolve_def raise_def)
          next
            case own: (Inr own)
            let ?c = "own = ''False'' \<and> list_all id flags
                        \<and> planned_units st = int (length (units r)) + 1"
            have eq: "start_resolve e st = (if ?c then initialize e st else wait_for_units st)"
              using Some Inr False flags l own by (simp add: start_resolve_def)
            have fc: "four_conditions st = ?c"
              using Some l nf get_own_flag(1)[OF own] by (simp add: four_conditions_def)
            show ?thesis
            proof (cases ?c)
              case True
              then show ?thesis using eq fc npc by simp
            next
              case False
              then show ?thesis using eq fc npc by simp
            qed
          qed
        qed
      qed
    qed
  qed
qed

lemma cmd_distinct [simp]:
  "cmd_init \<noteq> cmd_rm_etc_ceph" "cmd_init \<noteq> cmd_ln_etc_ceph" "cmd_init \<noteq> cmd_cluster_list"
  "cmd_init \<noteq> cmd_enable_rgw"
  "cmd_cluster_list \<noteq> cmd_rm_etc_ceph" "cmd_cluster_list \<noteq> cmd_ln_etc_ceph"
  "cmd_cluster_list \<noteq> cmd_init" "cmd_cluster_list \<noteq> cmd_enable_rgw"
  by (simp_all add: cmd_init_def cmd_rm_etc_ceph_def cmd_ln_etc_ceph_def cmd_cluster_list_def
      cmd_enable_rgw_def)

lemma cw_union:
  "cmds_within C st st1 \<Longrightarrow> cmds_within C' st1 st2 \<Longrightarrow> set (issued st st2) \<subseteq> C \<union> C'"
  by (auto simp: cmds_within_def issued_def)

lemma on_charm_start_unfold:
  "on_charm_start e st =
     (case fst (start_pending_config e st) of
        Inl x \<Rightarrow> (Inl x, snd (start_pending_config e st))
      | Inr v \<Rightarrow> start_resolve e (snd (start_pending_config e st)))"
  by (simp add: on_charm_start_def bnd_def split: prod.splits sum.splits)

lemma vk_cw: "view_kept C st st' \<Longrightarrow> cmds_within C st st'"
  by (simp add: view_kept_def)

lemma vk_four_conditions: "view_kept C st st' \<Longrightarrow> four_conditions st' = four_conditions st"
  by (rule four_conditions_cong) (simp_all add: view_kept_def)

lemma vk_own_bag_present: "view_kept C st st' \<Longrightarrow> own_bag_present st' = own_bag_present st"
  by (rule own_bag_present_cong) (simp_all add: view_kept_def)

lemma vk_some_peer_clustered:
  "view_kept C st st' \<Longrightarrow> some_peer_clustered st' = some_peer_clustered st"
  by (simp add: view_kept_def some_peer_clustered_def)

lemma vk_bags_present: "view_kept C st st' \<Longrightarrow> bags_present st' = bags_present st"
  by (simp add: view_kept_def bags_present_def split: option.splits)

text \<open>The branch is known from the commands issued.\<close>

lemma start_resolve_issued_init:
  assumes "cmds_within {cmd_rm_etc_ceph, cmd_ln_etc_ceph} st st1"
    and "cmd_init \<in> set (issued st (snd (start_resolve e st1)))"
  shows "start_resolve e st1 = initialize e st1 \<and> four_conditions st1"
proof -
  note b = start_resolve_branches[of e st1]
  have "start_resolve e st1 \<noteq> check_clustered e st1"
  proof
    assume a: "start_resolve e st1 = check_clustered e st1"
    from cw_union[OF assms(1) keepsD[OF cw_check_clustered[of e], of st1]] assms(2) a
    show False by auto
  qed
  moreover have "start_resolve e st1 \<noteq> wait_for_units st1"
  proof
    assume a: "start_resolve e st1 = wait_for_units st1"
    from cw_union[OF assms(1) keepsD[OF cw_wait, of st1]] assms(2) a
    show False by auto
  qed
  moreover have "start_resolve e st1 \<noteq> (Inl x, st1)" for x
  proof
    assume a: "start_resolve e st1 = (Inl x, st1)"
    from cw_issued[OF assms(1)] assms(2) a show False by auto
  qed
  ultimately show ?thesis using b by auto
qed

lemma start_resolve_issued_probe:
  assumes "cmds_within {cmd_rm_etc_ceph, cmd_ln_etc_ceph} st st1"
    and "cmd_cluster_list \<in> set (issued st (snd (start_resolve e st1)))"
  shows "start_resolve e st1 = check_clustered e st1"
proof -
  note b = start_resolve_branches[of e st1]
  have "start_resolve e st1 \<noteq> initialize e st1"
  proof
    assume a: "start_resolve e st1 = initialize e st1"
    from cw_union[OF assms(1) keepsD[OF cw_initialize[of e], of st1]] assms(2) a
    show False by auto
  qed
  moreover have "start_resolve e st1 \<noteq> wait_for_units st1"
  proof
    assume a: "start_resolve e st1 = wait_for_units st1"
    from cw_union[OF assms(1) keepsD[OF cw_wait, of st1]] assms(2) a
    show False by auto
  qed
  moreover have "start_resolve e st1 \<noteq> (Inl x, st1)" for x
  proof
    assume a: "start_resolve e st1 = (Inl x, st1)"
    from cw_issued[OF assms(1)] assms(2) a show False by auto
  qed
  ultimately show ?thesis using b by auto
qed

lemma get_own_total:
  "own_bag_present st \<Longrightarrow> \<exists>own. get_peer_data_str (Some (self_unit st)) ''clustered'' st = Inr own"
  by (auto simp: own_bag_present_def get_peer_data_str_def split: option.splits pyval.splits)

lemma start_resolve_waits:
  assumes "bags_present st" and "\<not> some_peer_clustered st" and "\<not> four_conditions st"
  shows "start_resolve e st = wait_for_units st"
proof -
  obtain r where r: "peers st = Some r" and own: "data r (self_unit st) \<noteq> None"
    and all: "list_all (\<lambda>u. data r u \<noteq> None) (units r)"
    using assms(1) by (auto simp: bags_present_def split: option.splits)
  have 1: "one_unit_clustered r (units r) = Inr False"
    using one_unit_clustered_total[OF all] assms(2) r by (simp add: some_peer_clustered_def)
  obtain flags where 2: "new_peers r (units r) = Inr flags"
    using new_peers_total[OF all] by blast
  have "own_bag_present st" using r own by (simp add: own_bag_present_def)
  then obtain v where 3: "get_peer_data_str (Some (self_unit st)) ''clustered'' st = Inr v"
    using get_own_total by blast
  show ?thesis using r 1 2 3 assms(3) new_peers_flags[OF 2] get_own_flag(1)[OF 3]
    by (auto simp: start_resolve_def four_conditions_def)
qed

lemma wait_for_units_result:
  "fst (wait_for_units st) = Inr () \<and> (\<exists>m. status (snd (wait_for_units st)) = WaitingStatus m)
   \<and> deferred (snd (wait_for_units st))"
  by (simp add: wait_for_units_def monad_defs status_defs)

lemma initialize_init_fails:
  "\<not> cmd_succeeds e cmd_init \<Longrightarrow>
     initialize e st =
       (Inr (), st\<lparr>status := BlockedStatus (Msg ''Failed to initialize MicroCloud''),
                   cmds := cmds st @ [cmd_init]\<rparr>)"
  by (simp add: initialize_def microcloud_init_def run_checked monad_defs status_defs
      blocked_then_runtime_error_def failure_of_def)

text \<open>
  Claim C1. On every execution of the start handler the initialization command is issued
  only if the four conditions hold: the unit is leader, its own \<^verbatim>\<open>clustered\<close> flag is
  \<^verbatim>\<open>"False"\<close>, the flag of every known peer is \<^verbatim>\<open>"False"\<close>, and the planned units
  are the known peers plus one. In every other case of the evaluation of the conditions
  (no peer's flag is \<^verbatim>\<open>"True"\<close>: with such a peer the handler leaves through the health
  probe before it evaluates them), the relation holding the bags of the unit and of its
  peers and the handling of pending configuration changes at the head of the handler
  having returned, the handler returns with a waiting status and the event deferred, and
  issues no cluster command.
\<close>

theorem init_only_under_four_conditions:
  "(cmd_init \<in> set (issued st (snd (on_charm_start e st))) \<longrightarrow> four_conditions st)
   \<and> (\<not> four_conditions st \<and> \<not> some_peer_clustered st \<and> bags_present st
        \<and> fst (start_pending_config e st) = Inr ()
      \<longrightarrow> fst (on_charm_start e st) = Inr ()
          \<and> (\<exists>m. status (snd (on_charm_start e st)) = WaitingStatus m)
          \<and> deferred (snd (on_charm_start e st))
          \<and> set (issued st (snd (on_charm_start e st))) \<subseteq> {cmd_rm_etc_ceph, cmd_ln_etc_ceph})"
proof -
  let ?st1 = "snd (start_pending_config e st)"
  note vk = vk_start_pending_config[of st e]
  note cw = vk_cw[OF vk]
  have only_if: "four_conditions st"
    if a: "cmd_init \<in> set (issued st (snd (on_charm_start e st)))"
  proof (cases "fst (start_pending_config e st)")
    case (Inl x)
    then have "snd (on_charm_start e st) = ?st1" by (simp add: on_charm_start_unfold)
    then show ?thesis using a cw_issued[OF cw] by auto
  next
    case (Inr v)
    then have "on_charm_start e st = start_resolve e ?st1" by (simp add: on_charm_start_unfold)
    then have "four_conditions ?st1" using start_resolve_issued_init[OF cw, of e] a by simp
    then show ?thesis using vk_four_conditions[OF vk] by simp
  qed
  have otherwise: "fst (on_charm_start e st) = Inr ()
        \<and> (\<exists>m. status (snd (on_charm_start e st)) = WaitingStatus m)
        \<and> deferred (snd (on_charm_start e st))
        \<and> set (issued st (snd (on_charm_start e st))) \<subseteq> {cmd_rm_etc_ceph, cmd_ln_etc_ceph}"
    if a: "\<not> four_conditions st \<and> \<not> some_peer_clustered st \<and> bags_present st
        \<and> fst (start_pending_config e st) = Inr ()"
  proof -
    from a have eq: "on_charm_start e st = start_resolve e ?st1"
      by (simp add: on_charm_start_unfold)
    have "start_resolve e ?st1 = wait_for_units ?st1"
      using a vk_four_conditions[OF vk] vk_some_peer_clustered[OF vk] vk_bags_present[OF vk]
      by (intro start_resolve_waits) simp_all
    then have w: "on_charm_start e st = wait_for_units ?st1" using eq by simp
    show ?thesis
      using wait_for_units_result[of ?st1] cw_union[OF cw keepsD[OF cw_wait, of ?st1]]
      by (simp add: w)
  qed
  show ?thesis using only_if otherwise by blast
qed

text \<open>
  Claim C2. Whenever the health probe (the cluster listing command) succeeds, the unit
  having a bag in the peer relation, its own \<^verbatim>\<open>clustered\<close> flag is \<^verbatim>\<open>"True"\<close>
  afterwards and its status is active, whatever the bag said before: in the start handler
  on every execution that runs the probe (it runs it when a peer's flag is
  \<^verbatim>\<open>"True"\<close>), and in the update-status handler always.
\<close>

theorem probe_success_resolves_clustered:
  "cmd_succeeds e cmd_cluster_list \<and> own_bag_present st \<longrightarrow>
     (cmd_cluster_list \<in> set (issued st (snd (on_charm_start e st))) \<longrightarrow>
        fst (on_charm_start e st) = Inr ()
        \<and> own_flag (snd (on_charm_start e st)) = Some (PyStr ''True'')
        \<and> status (snd (on_charm_start e st)) = ActiveStatus)
     \<and> fst (on_update_status e st) = Inr ()
     \<and> own_flag (snd (on_update_status e st)) = Some (PyStr ''True'')
     \<and> status (snd (on_update_status e st)) = ActiveStatus"
proof (intro impI conjI)
  assume a: "cmd_succeeds e cmd_cluster_list \<and> own_bag_present st"
  then show "fst (on_update_status e st) = Inr ()"
    and "own_flag (snd (on_update_status e st)) = Some (PyStr ''True'')"
    and "status (snd (on_update_status e st)) = ActiveStatus"
    using update_status_ok[of e st] by simp_all
  let ?st1 = "snd (start_pending_config e st)"
  note vk = vk_start_pending_config[of st e]
  note cw = vk_cw[OF vk]
  assume b: "cmd_cluster_list \<in> set (issued st (snd (on_charm_start e st)))"
  have r: "on_charm_start e st = check_clustered e ?st1"
  proof (cases "fst (start_pending_config e st)")
    case (Inl x)
    then have "snd (on_charm_start e st) = ?st1" by (simp add: on_charm_start_unfold)
    then show ?thesis using b cw_issued[OF cw] by auto
  next
    case (Inr v)
    then have "on_charm_start e st = start_resolve e ?st1" by (simp add: on_charm_start_unfold)
    then show ?thesis using start_resolve_issued_probe[OF cw, of e] b by simp
  qed
  have "own_bag_present ?st1" using a vk_own_bag_present[OF vk] by simp
  from check_clustered_ok[OF _ this, of e] a r
  show "fst (on_charm_start e st) = Inr ()"
    and "own_flag (snd (on_charm_start e st)) = Some (PyStr ''True'')"
    and "status (snd (on_charm_start e st)) = ActiveStatus"
    by simp_all
qed

text \<open>
  Claim C6, as amended. On every execution of the start handler that issues the
  initialization command and where that command fails (exit status not zero, or timeout),
  the handler returns, the unit's own flag is still \<^verbatim>\<open>"False"\<close>, its status is blocked,
  and the event is deferred exactly if the handling of pending configuration changes had
  deferred it: the failure itself defers nothing.
\<close>

theorem init_failure_blocks_without_defer:
  "cmd_init \<in> set (issued st (snd (on_charm_start e st))) \<and> \<not> cmd_succeeds e cmd_init \<longrightarrow>
     fst (on_charm_start e st) = Inr ()
     \<and> own_flag (snd (on_charm_start e st)) = Some (PyStr ''False'')
     \<and> status (snd (on_charm_start e st)) = BlockedStatus (Msg ''Failed to initialize MicroCloud'')
     \<and> deferred (snd (on_charm_start e st)) = deferred (snd (start_pending_config e st))"
proof
  let ?st1 = "snd (start_pending_config e st)"
  note vk = vk_start_pending_config[of st e]
  note cw = vk_cw[OF vk]
  assume a: "cmd_init \<in> set (issued st (snd (on_charm_start e st))) \<and> \<not> cmd_succeeds e cmd_init"
  have r: "on_charm_start e st = initialize e ?st1 \<and> four_conditions ?st1"
  proof (cases "fst (start_pending_config e st)")
    case (Inl x)
    then have "snd (on_charm_start e st) = ?st1" by (simp add: on_charm_start_unfold)
    then show ?thesis using a cw_issued[OF cw] by auto
  next
    case (Inr v)
    then have "on_charm_start e st = start_resolve e ?st1" by (simp add: on_charm_start_unfold)
    then show ?thesis using start_resolve_issued_init[OF cw, of e] a by simp
  qed
  have f: "own_flag ?st1 = Some (PyStr ''False'')"
    using r by (simp add: four_conditions_def split: option.splits)
  show "fst (on_charm_start e st) = Inr ()
     \<and> own_flag (snd (on_charm_start e st)) = Some (PyStr ''False'')
     \<and> status (snd (on_charm_start e st)) = BlockedStatus (Msg ''Failed to initialize MicroCloud'')
     \<and> deferred (snd (on_charm_start e st)) = deferred (snd (start_pending_config e st))"
    using r f a by (simp add: initialize_init_fails)
qed

section \<open>Executions of the start handler\<close>

lemmas cmd_defs = cmd_rm_etc_ceph_def cmd_ln_etc_ceph_def cmd_cluster_list_def cmd_init_def
  cmd_enable_rgw_def cmd_add_def cmd_list_instances_def cmd_remove_lxd_def
  cmd_remove_microceph_def cmd_remove_microovn_def cmd_remove_microcloud_def

lemmas start_defs = on_charm_start_def start_pending_config_def config_changed_def
  start_resolve_def check_clustered_def initialize_def wait_for_units_def microcloud_init_def
  blocked_then_runtime_error_def subprocess_run_def

lemmas eval_defs = start_defs monad_defs status_defs store_defs scenario_defs cmd_defs
  issued_def four_conditions_def some_peer_clustered_def bags_present_def own_bag_present_def
  cmd_succeeds_def executable_missing_def optional_executables_def Let_def

lemma trio_ready_start:
  "issued trio_ready (snd (on_charm_start calm trio_ready)) = [cmd_init, cmd_enable_rgw]"
  by (simp add: trio_ready_def calm_def eval_defs)

lemma trio_incomplete_facts:
  "\<not> four_conditions trio_incomplete \<and> \<not> some_peer_clustered trio_incomplete
   \<and> bags_present trio_incomplete \<and> fst (start_pending_config calm trio_incomplete) = Inr ()"
  by (simp add: trio_incomplete_def calm_def eval_defs)

text \<open>
  Witness for C1: the leader of three units with both peers known and unclustered issues
  the initialization command; with one peer known only it waits and defers.
\<close>

theorem init_only_under_four_conditions_witness:
  "cmd_init \<in> set (issued trio_ready (snd (on_charm_start calm trio_ready)))
   \<and> four_conditions trio_ready
   \<and> \<not> four_conditions trio_incomplete \<and> \<not> some_peer_clustered trio_incomplete
   \<and> bags_present trio_incomplete
   \<and> fst (start_pending_config calm trio_incomplete) = Inr ()
   \<and> fst (on_charm_start calm trio_incomplete) = Inr ()
   \<and> (\<exists>m. status (snd (on_charm_start calm trio_incomplete)) = WaitingStatus m)
   \<and> deferred (snd (on_charm_start calm trio_incomplete))"
  using init_only_under_four_conditions[of trio_ready calm] init_only_under_four_conditions[of trio_incomplete calm] trio_ready_start trio_incomplete_facts
  by simp

lemma joiner_facts:
  "cmd_succeeds calm cmd_cluster_list \<and> own_bag_present joiner
   \<and> cmd_cluster_list \<in> set (issued joiner (snd (on_charm_start calm joiner)))"
  by (simp add: joiner_def calm_def eval_defs)

text \<open>
  Witness for C2: a follower whose own flag is \<^verbatim>\<open>"False"\<close> and whose peer is
  clustered; the probe succeeds, on start and on update-status.
\<close>

theorem probe_success_resolves_clustered_witness:
  "cmd_succeeds calm cmd_cluster_list \<and> own_bag_present joiner
   \<and> own_flag joiner = Some (PyStr ''False'')
   \<and> cmd_cluster_list \<in> set (issued joiner (snd (on_charm_start calm joiner)))
   \<and> own_flag (snd (on_charm_start calm joiner)) = Some (PyStr ''True'')
   \<and> status (snd (on_charm_start calm joiner)) = ActiveStatus
   \<and> own_flag (snd (on_update_status calm joiner)) = Some (PyStr ''True'')
   \<and> status (snd (on_update_status calm joiner)) = ActiveStatus"
proof -
  have "own_flag joiner = Some (PyStr ''False'')"
    by (simp add: joiner_def eval_defs)
  then show ?thesis using probe_success_resolves_clustered[of calm joiner] joiner_facts by simp
qed

lemma trio_ready_init_fails:
  "cmd_init \<in> set (issued trio_ready (snd (on_charm_start init_fails trio_ready)))
   \<and> \<not> cmd_succeeds init_fails cmd_init
   \<and> \<not> deferred (snd (start_pending_config init_fails trio_ready))"
  by (simp add: trio_ready_def init_fails_def eval_defs)

text \<open>
  Claim C6 as stated fails: the leader of three units, both peers known and unclustered,
  issues the initialization command, the command fails, and the event is not deferred.
\<close>

theorem init_failure_not_deferred:
  "cmd_init \<in> set (issued trio_ready (snd (on_charm_start init_fails trio_ready)))
   \<and> \<not> cmd_succeeds init_fails cmd_init
   \<and> \<not> deferred (snd (on_charm_start init_fails trio_ready))"
  by (simp add: trio_ready_def init_fails_def eval_defs)

text \<open>Witness for C6: the same execution; the flag stays \<^verbatim>\<open>"False"\<close>, the status is blocked.\<close>

theorem init_failure_blocks_without_defer_witness:
  "cmd_init \<in> set (issued trio_ready (snd (on_charm_start init_fails trio_ready)))
   \<and> \<not> cmd_succeeds init_fails cmd_init
   \<and> fst (on_charm_start init_fails trio_ready) = Inr ()
   \<and> own_flag (snd (on_charm_start init_fails trio_ready)) = Some (PyStr ''False'')
   \<and> status (snd (on_charm_start init_fails trio_ready))
       = BlockedStatus (Msg ''Failed to initialize MicroCloud'')
   \<and> \<not> deferred (snd (on_charm_start init_fails trio_ready))"
  using init_failure_blocks_without_defer[of trio_ready init_fails] trio_ready_init_fails by simp

section \<open>Joining and removal\<close>

text \<open>The relation-joined handler issues one command or none.\<close>

lemma microcloud_add_cmds: "cmds (snd (microcloud_add e st)) = cmds st @ [cmd_add]"
  by (simp add: microcloud_add_def run_checked monad_defs status_defs
      blocked_then_runtime_error_def failure_of_def)

lemma joined_cmds:
  "cmds (snd (on_cluster_relation_joined e u st)) =
     cmds st @ (if is_leader st \<and> own_flag st = Some (PyStr ''True'') \<and> u \<noteq> Some (self_unit st)
                then [cmd_add] else [])"
proof (cases "is_leader st")
  case False
  then show ?thesis by (simp add: on_cluster_relation_joined_def ret_def)
next
  case l: True
  show ?thesis
  proof (cases "get_peer_data_str (Some (self_unit st)) ''clustered'' st")
    case (Inl x)
    then have "own_flag st \<noteq> Some (PyStr ''True'')"
      by (auto simp: store_defs split: option.splits pyval.splits if_splits)
    then show ?thesis using l Inl by (simp add: on_cluster_relation_joined_def raise_def)
  next
    case (Inr own)
    have t: "cmds (snd (try_except (microcloud_add e)
                (\<lambda>x. if x = RuntimeError then Some (ret ()) else None) st)) = cmds st @ [cmd_add]"
      using microcloud_add_cmds[of e st]
      by (auto simp: try_except_def ret_def split: prod.splits sum.splits)
    show ?thesis using l Inr get_own_flag(2)[OF Inr] t
      by (simp add: on_cluster_relation_joined_def ret_def)
  qed
qed

text \<open>
  Claim C7. The relation-joined handler issues the add-member command only when the unit
  is leader, its own \<^verbatim>\<open>clustered\<close> flag is \<^verbatim>\<open>"True"\<close> and the joining unit is not the
  unit itself; a unit that is not leader issues no command at all.
\<close>

theorem add_only_by_clustered_leader:
  "(cmd_add \<in> set (issued st (snd (on_cluster_relation_joined e u st))) \<longrightarrow>
      is_leader st \<and> own_flag st = Some (PyStr ''True'') \<and> u \<noteq> Some (self_unit st))
   \<and> (\<not> is_leader st \<longrightarrow> issued st (snd (on_cluster_relation_joined e u st)) = [])"
  by (simp add: issued_def joined_cmds)

text \<open>Witness for C7: a clustered leader adds the joining peer; a follower does nothing.\<close>

theorem add_only_by_clustered_leader_witness:
  "is_leader clustered_leader \<and> own_flag clustered_leader = Some (PyStr ''True'')
   \<and> cmd_add \<in> set (issued clustered_leader
        (snd (on_cluster_relation_joined calm (Some ''microcloud/1'') clustered_leader)))
   \<and> \<not> is_leader joiner
   \<and> issued joiner (snd (on_cluster_relation_joined calm (Some ''microcloud/1'') joiner)) = []"
proof -
  have "cmd_add \<in> set (issued clustered_leader
        (snd (on_cluster_relation_joined calm (Some ''microcloud/1'') clustered_leader)))"
    by (simp add: joined_cmds issued_def clustered_leader_def eval_defs)
  moreover have "\<not> is_leader joiner" by (simp add: joiner_def scenario_def)
  ultimately show ?thesis
    using add_only_by_clustered_leader[of clustered_leader calm "Some ''microcloud/1''"]
      add_only_by_clustered_leader[of joiner calm "Some ''microcloud/1''"]
    by simp
qed

text \<open>The safety check of the removal, and the exceptions it can raise.\<close>

lemma scan_instances_occupied:
  "well_formed_inventory insts \<Longrightarrow> located_on node insts \<Longrightarrow>
     scan_instances node insts = Inr True"
  by (induction insts) (auto simp: well_formed_inventory_def located_on_def split: sum.splits)

lemma scan_instances_exn:
  "scan_instances node insts = Inl x \<Longrightarrow> x = KeyError \<or> x = TypeError"
proof (induction insts)
  case Nil
  then show ?case by simp
next
  case (Cons inst insts)
  have "inst_location inst = Inl y \<Longrightarrow> y = KeyError \<or> y = TypeError" for y
    by (cases inst) (auto split: option.splits)
  then show ?case using Cons by (auto split: sum.splits if_splits)
qed

lemma iterate_exn: "iterate j = Inl x \<Longrightarrow> x = TypeError"
  by (cases j) auto

lemma json_loads_exn: "json_loads e s = Inl x \<Longrightarrow> x = JSONDecodeError"
  by (auto simp: json_loads_def split: if_splits option.splits)

lemma run_plain:
  "\<not> executable_missing e argv \<Longrightarrow>
   subprocess_run e argv True False None st =
     (Inr (Some (stdout (run e argv))), st\<lparr>cmds := cmds st @ [argv]\<rparr>)"
  by (simp add: subprocess_run_def Let_def)

lemma safety_check_body_unfold:
  "safety_check_body e node st =
     (case json_loads e (stdout (run e cmd_list_instances)) of
        Inl x \<Rightarrow> (Inl x, st\<lparr>cmds := cmds st @ [cmd_list_instances]\<rparr>)
      | Inr j \<Rightarrow>
          (case iterate j of
             Inl x \<Rightarrow> (Inl x, st\<lparr>cmds := cmds st @ [cmd_list_instances]\<rparr>)
           | Inr insts \<Rightarrow>
               (case scan_instances node insts of
                  Inl x \<Rightarrow> (Inl x, st\<lparr>cmds := cmds st @ [cmd_list_instances]\<rparr>)
                | Inr found \<Rightarrow>
                    (Inr found,
                     if found
                     then st\<lparr>cmds := cmds st @ [cmd_list_instances],
                             status := BlockedStatus
                               (Msg ''This Microcloud unit contains instances. You can't remove it.'')\<rparr>
                     else st\<lparr>cmds := cmds st @ [cmd_list_instances]\<rparr>))))"
  by (simp add: safety_check_body_def run_plain monad_defs status_defs split: sum.splits)

lemma safety_check_body_exn:
  "fst (safety_check_body e node st) = Inl x \<Longrightarrow>
     x = JSONDecodeError \<or> x = TypeError \<or> x = KeyError"
  by (auto simp: safety_check_body_unfold split: sum.splits
      dest: json_loads_exn iterate_exn scan_instances_exn)

lemma safety_check_eq: "safety_check e node st = safety_check_body e node st"
proof (cases "safety_check_body e node st")
  case (Pair r st')
  show ?thesis
  proof (cases r)
    case (Inr v)
    then show ?thesis using Pair by (simp add: safety_check_def try_except_def)
  next
    case (Inl x)
    then have "x = JSONDecodeError \<or> x = TypeError \<or> x = KeyError"
      using safety_check_body_exn[of e node st x] Pair by simp
    then show ?thesis using Pair Inl by (auto simp: safety_check_def try_except_def)
  qed
qed

lemma microcloud_remove_unfold:
  "microcloud_remove e node st =
     (case safety_check_body e node st of
        (Inl x, st') \<Rightarrow> (Inl x, st')
      | (Inr True, st') \<Rightarrow> (Inr (), st')
      | (Inr False, st') \<Rightarrow>
          try_except (removal_steps e node) blocked_then_runtime_error
            (st'\<lparr>status := MaintenanceStatus (Msg ''Removing node from MicroCloud'')\<rparr>))"
  by (simp add: microcloud_remove_def bnd_def safety_check_eq ret_def modify_def
      unit_maintenance_def split: prod.splits sum.splits bool.splits)

text \<open>
  Claim C4. When the workload listing decodes to a list of instances, each an object with
  a location, and one of them is located on the node to remove, \<^verbatim>\<open>microcloud_remove\<close>
  returns with a blocked status having issued the listing command only: none of the four
  removal commands is issued, whatever the rest of the state and of the world.
\<close>

theorem removal_refused_when_occupied:
  "json_loads e (stdout (run e cmd_list_instances)) = Inr (JList insts)
   \<and> well_formed_inventory insts \<and> located_on node insts \<longrightarrow>
     microcloud_remove e node st =
       (Inr (), st\<lparr>cmds := cmds st @ [cmd_list_instances],
                   status := BlockedStatus
                     (Msg ''This Microcloud unit contains instances. You can't remove it.'')\<rparr>)"
  by (auto simp: microcloud_remove_unfold safety_check_body_unfold scan_instances_occupied)

lemmas removal_defs = removal_world_def inventory_here_def inventory_elsewhere_def
  listing_fails_def clustered_leader_def json_loads_def well_formed_inventory_def located_on_def
  removal_plan_def

text \<open>Witness for C4: one instance, located on \<^verbatim>\<open>node0\<close>, which is to be removed.\<close>

theorem removal_refused_when_occupied_witness:
  "json_loads (removal_world inventory_here [])
       (stdout (run (removal_world inventory_here []) cmd_list_instances)) = Inr (JList inventory_here)
   \<and> well_formed_inventory inventory_here \<and> located_on ''node0'' inventory_here
   \<and> fst (microcloud_remove (removal_world inventory_here []) ''node0'' clustered_leader) = Inr ()
   \<and> status (snd (microcloud_remove (removal_world inventory_here []) ''node0'' clustered_leader))
       = BlockedStatus (Msg ''This Microcloud unit contains instances. You can't remove it.'')
   \<and> issued clustered_leader
        (snd (microcloud_remove (removal_world inventory_here []) ''node0'' clustered_leader))
       = [cmd_list_instances]"
proof -
  have "json_loads (removal_world inventory_here [])
       (stdout (run (removal_world inventory_here []) cmd_list_instances)) = Inr (JList inventory_here)
   \<and> well_formed_inventory inventory_here \<and> located_on ''node0'' inventory_here"
    by (simp add: removal_defs scenario_defs)
  then show ?thesis
    using removal_refused_when_occupied[of "removal_world inventory_here []" inventory_here "''node0''" clustered_leader]
    by (simp add: issued_def)
qed

text \<open>
  Claim C9. The workload listing is run without \<^verbatim>\<open>check\<close> and without timeout, so the
  first \<^verbatim>\<open>try\<close> of \<^verbatim>\<open>microcloud_remove\<close> never raises CalledProcessError or
  TimeoutExpired and its two \<^verbatim>\<open>except\<close> clauses change nothing. When the listing fails
  and prints nothing, \<^verbatim>\<open>json.loads\<close> raises on the empty text; the exception leaves
  \<^verbatim>\<open>microcloud_remove\<close> and, for a clustered unit, the stop handler, with the status
  untouched.
\<close>

theorem listing_failure_propagates:
  "safety_check e node st = safety_check_body e node st
   \<and> fst (safety_check_body e node st) \<noteq> Inl (CalledProcessError c rc err)
   \<and> fst (safety_check_body e node st) \<noteq> Inl (TimeoutExpired c)
   \<and> (returncode (run e cmd_list_instances) \<noteq> 0 \<and> stdout (run e cmd_list_instances) = ''''
        \<longrightarrow> microcloud_remove e node st
              = (Inl JSONDecodeError, st\<lparr>cmds := cmds st @ [cmd_list_instances]\<rparr>)
          \<and> (own_flag st = Some (PyStr ''True'') \<longrightarrow>
                on_charm_stop e st
                  = (Inl JSONDecodeError, st\<lparr>cmds := cmds st @ [cmd_list_instances]\<rparr>)))"
proof (intro conjI impI)
  show "safety_check e node st = safety_check_body e node st" by (rule safety_check_eq)
  show "fst (safety_check_body e node st) \<noteq> Inl (CalledProcessError c rc err)"
    using safety_check_body_exn[of e node st "CalledProcessError c rc err"] by auto
  show "fst (safety_check_body e node st) \<noteq> Inl (TimeoutExpired c)"
    using safety_check_body_exn[of e node st "TimeoutExpired c"] by auto
next
  assume a: "returncode (run e cmd_list_instances) \<noteq> 0 \<and> stdout (run e cmd_list_instances) = ''''"
  then have r: "microcloud_remove e n st
              = (Inl JSONDecodeError, st\<lparr>cmds := cmds st @ [cmd_list_instances]\<rparr>)" for n
    by (simp add: microcloud_remove_unfold safety_check_body_unfold json_loads_def)
  show "microcloud_remove e node st
              = (Inl JSONDecodeError, st\<lparr>cmds := cmds st @ [cmd_list_instances]\<rparr>)"
    by (rule r)
  assume "own_flag st = Some (PyStr ''True'')"
  then have "get_peer_data_str (Some (self_unit st)) ''clustered'' st = Inr ''True''"
    by (auto simp: store_defs split: option.splits pyval.splits)
  then show "on_charm_stop e st
                  = (Inl JSONDecodeError, st\<lparr>cmds := cmds st @ [cmd_list_instances]\<rparr>)"
    by (simp add: on_charm_stop_def try_except_def r)
qed

text \<open>Witness for C9: the listing exits with status 1 and no output on a clustered leader.\<close>

theorem listing_failure_propagates_witness:
  "returncode (run listing_fails cmd_list_instances) \<noteq> 0
   \<and> stdout (run listing_fails cmd_list_instances) = ''''
   \<and> own_flag clustered_leader = Some (PyStr ''True'')
   \<and> fst (on_charm_stop listing_fails clustered_leader) = Inl JSONDecodeError
   \<and> status (snd (on_charm_stop listing_fails clustered_leader)) = UnknownStatus"
proof -
  have h: "returncode (run listing_fails cmd_list_instances) \<noteq> 0
   \<and> stdout (run listing_fails cmd_list_instances) = ''''
   \<and> own_flag clustered_leader = Some (PyStr ''True'')"
    by (simp add: removal_defs scenario_defs own_flag_def stored_value_def)
  have s: "status clustered_leader = UnknownStatus"
    by (simp add: clustered_leader_def scenario_def)
  show ?thesis
    using listing_failure_propagates[of listing_fails "nodename clustered_leader" clustered_leader "[]" 0 None] h s
    by simp
qed

lemma stored_config_get_cmds [simp]:
  "stored_config (st\<lparr>cmds := c\<rparr>) = stored_config st"
  "stored_config (st\<lparr>status := s\<rparr>) = stored_config st"
  by simp_all

lemma subsystem_enabled_upd [simp]:
  "subsystem_enabled (st\<lparr>cmds := c\<rparr>) name = subsystem_enabled st name"
  "subsystem_enabled (st\<lparr>status := s\<rparr>) name = subsystem_enabled st name"
  by (simp_all add: subsystem_enabled_def)

lemma removal_plan_upd [simp]:
  "removal_plan (st\<lparr>cmds := c\<rparr>) node = removal_plan st node"
  "removal_plan (st\<lparr>status := s\<rparr>) node = removal_plan st node"
  by (simp_all add: removal_plan_def)

text \<open>
  Where the stored channels tell what the toggles tell, and the executables of the enabled
  subsystems exist, the removal steps are those of the plan up to the first failure.
\<close>

lemma removal_result:
  assumes "stored_config st ''snap-channel-microceph'' = Some a"
    and "stored_config st ''snap-channel-microovn'' = Some b"
    and "truthy a = subsystem_enabled st ''microceph''"
    and "truthy b = subsystem_enabled st ''microovn''"
    and "\<not> executable_missing e (cmd_remove_microceph node)"
    and "\<not> executable_missing e (cmd_remove_microovn node)"
  shows "fst (try_except (removal_steps e node) blocked_then_runtime_error st)
           = (if list_all (cmd_succeeds e) (removal_plan st node) then Inr () else Inl RuntimeError)"
    and "cmds (snd (try_except (removal_steps e node) blocked_then_runtime_error st))
           = cmds st @ upto_first_failure e (removal_plan st node)"
    and "list_all (cmd_succeeds e) (removal_plan st node) \<Longrightarrow>
           status (snd (try_except (removal_steps e node) blocked_then_runtime_error st)) = status st"
    and "\<not> list_all (cmd_succeeds e) (removal_plan st node) \<Longrightarrow>
           \<exists>m. status (snd (try_except (removal_steps e node) blocked_then_runtime_error st))
                 = BlockedStatus m"
    and "deferred (snd (try_except (removal_steps e node) blocked_then_runtime_error st))
           = deferred st"
  using assms
  by (auto simp: removal_steps_def removal_plan_def run_checked monad_defs status_defs
      stored_config_get_def blocked_then_runtime_error_def failure_of_def)

text \<open>The removal steps when the executable of the storage subsystem is missing.\<close>

lemma run_missing:
  "executable_missing e argv \<Longrightarrow>
   subprocess_run e argv c k t st = (Inl FileNotFoundError, st\<lparr>cmds := cmds st @ [argv]\<rparr>)"
  by (simp add: subprocess_run_def Let_def)

lemma removal_steps_missing_microceph:
  assumes "cmd_succeeds e (cmd_remove_lxd node)"
    and "stored_config st ''snap-channel-microceph'' = Some a" and "truthy a"
    and "executable_missing e (cmd_remove_microceph node)"
  shows "try_except (removal_steps e node) blocked_then_runtime_error st
           = (Inl FileNotFoundError,
              st\<lparr>cmds := cmds st @ [cmd_remove_lxd node, cmd_remove_microceph node]\<rparr>)"
  using assms
  by (simp add: removal_steps_def run_checked run_missing monad_defs stored_config_get_def
      blocked_then_runtime_error_def)

text \<open>The removal steps when both stored channels are set and every command succeeds.\<close>

lemma removal_steps_all:
  assumes "cmd_succeeds e (cmd_remove_lxd node)" and "cmd_succeeds e (cmd_remove_microceph node)"
    and "cmd_succeeds e (cmd_remove_microovn node)" and "cmd_succeeds e (cmd_remove_microcloud node)"
    and "stored_config st ''snap-channel-microceph'' = Some a" and "truthy a"
    and "stored_config st ''snap-channel-microovn'' = Some b" and "truthy b"
    and "\<not> executable_missing e (cmd_remove_microceph node)"
    and "\<not> executable_missing e (cmd_remove_microovn node)"
  shows "try_except (removal_steps e node) blocked_then_runtime_error st
           = (Inr (),
              st\<lparr>cmds := cmds st @ [cmd_remove_lxd node, cmd_remove_microceph node,
                                      cmd_remove_microovn node, cmd_remove_microcloud node]\<rparr>)"
  using assms
  by (simp add: removal_steps_def run_checked monad_defs stored_config_get_def
      blocked_then_runtime_error_def)

text \<open>
  The removal steps when the stored configuration holds no channel for the storage
  subsystem (no snap installation has completed): the lookup raises KeyError after the
  removal from the compute cluster.
\<close>

lemma removal_steps_missing_channel:
  assumes "cmd_succeeds e (cmd_remove_lxd node)"
    and "stored_config st ''snap-channel-microceph'' = None"
  shows "try_except (removal_steps e node) blocked_then_runtime_error st
           = (Inl KeyError, st\<lparr>cmds := cmds st @ [cmd_remove_lxd node]\<rparr>)"
  using assms
  by (simp add: removal_steps_def run_checked monad_defs stored_config_get_def
      blocked_then_runtime_error_def)

lemma scan_instances_clear:
  "well_formed_inventory insts \<Longrightarrow> \<not> located_on node insts \<Longrightarrow>
     scan_instances node insts = Inr False"
  by (induction insts) (auto simp: well_formed_inventory_def located_on_def split: sum.splits)

lemma microcloud_remove_clear:
  assumes "json_loads e (stdout (run e cmd_list_instances)) = Inr (JList insts)"
    and "well_formed_inventory insts" and "\<not> located_on node insts"
  shows "microcloud_remove e node st =
           try_except (removal_steps e node) blocked_then_runtime_error
             (st\<lparr>cmds := cmds st @ [cmd_list_instances],
                 status := MaintenanceStatus (Msg ''Removing node from MicroCloud'')\<rparr>)"
  using assms
  by (simp add: microcloud_remove_unfold safety_check_body_unfold scan_instances_clear)

text \<open>
  Where the code and the specification agree. When the safety check passes, the stored
  channels of the optional snaps are empty or not as the toggles are off or on, and the
  executables of the enabled subsystems exist, the commands issued after the listing are
  those of the plan, in its order, up to and including the first that fails or times out;
  a failure gives a blocked status and RuntimeError, and nothing is deferred.
\<close>

lemma removal_follows_plan:
  assumes "json_loads e (stdout (run e cmd_list_instances)) = Inr (JList insts)"
    and "well_formed_inventory insts" and "\<not> located_on node insts"
    and "stored_config st ''snap-channel-microceph'' = Some a"
    and "stored_config st ''snap-channel-microovn'' = Some b"
    and "truthy a = subsystem_enabled st ''microceph''"
    and "truthy b = subsystem_enabled st ''microovn''"
    and "\<not> executable_missing e (cmd_remove_microceph node)"
    and "\<not> executable_missing e (cmd_remove_microovn node)"
  shows "issued st (snd (microcloud_remove e node st))
           = cmd_list_instances # upto_first_failure e (removal_plan st node)"
    and "list_all (cmd_succeeds e) (removal_plan st node) \<Longrightarrow>
           fst (microcloud_remove e node st) = Inr ()
           \<and> status (snd (microcloud_remove e node st))
               = MaintenanceStatus (Msg ''Removing node from MicroCloud'')"
    and "\<not> list_all (cmd_succeeds e) (removal_plan st node) \<Longrightarrow>
           fst (microcloud_remove e node st) = Inl RuntimeError
           \<and> (\<exists>m. status (snd (microcloud_remove e node st)) = BlockedStatus m)"
    and "deferred (snd (microcloud_remove e node st)) = deferred st"
proof -
  let ?st1 = "st\<lparr>cmds := cmds st @ [cmd_list_instances],
                 status := MaintenanceStatus (Msg ''Removing node from MicroCloud'')\<rparr>"
  let ?t = "try_except (removal_steps e node) blocked_then_runtime_error ?st1"
  have eq: "microcloud_remove e node st = ?t"
    by (rule microcloud_remove_clear[OF assms(1-3)])
  have k: "stored_config ?st1 ''snap-channel-microceph'' = Some a"
    "stored_config ?st1 ''snap-channel-microovn'' = Some b"
    "truthy a = subsystem_enabled ?st1 ''microceph''"
    "truthy b = subsystem_enabled ?st1 ''microovn''"
    using assms(4-7) by simp_all
  note r = removal_result[OF k assms(8,9)]
  show "issued st (snd (microcloud_remove e node st))
           = cmd_list_instances # upto_first_failure e (removal_plan st node)"
    unfolding eq using r(2) by (simp add: issued_def)
  show "list_all (cmd_succeeds e) (removal_plan st node) \<Longrightarrow>
           fst (microcloud_remove e node st) = Inr ()
           \<and> status (snd (microcloud_remove e node st))
               = MaintenanceStatus (Msg ''Removing node from MicroCloud'')"
    unfolding eq using r(1) r(3) by simp
  show "\<not> list_all (cmd_succeeds e) (removal_plan st node) \<Longrightarrow>
           fst (microcloud_remove e node st) = Inl RuntimeError
           \<and> (\<exists>m. status (snd (microcloud_remove e node st)) = BlockedStatus m)"
    unfolding eq using r(1) r(4) by simp
  show "deferred (snd (microcloud_remove e node st)) = deferred st"
    unfolding eq using r(5) by simp
qed

text \<open>
  An instance: both subsystems enabled, the removal from the network subsystem fails. The
  listing, the two removals before it and the failing one are issued, the clustering
  tool's removal is not; the status is blocked.
\<close>

lemma removal_follows_plan_instance:
  "issued full_leader
        (snd (microcloud_remove (removal_world inventory_elsewhere [cmd_remove_microovn ''node0''])
                ''node0'' full_leader))
       = [cmd_list_instances, cmd_remove_lxd ''node0'', cmd_remove_microceph ''node0'',
          cmd_remove_microovn ''node0'']
   \<and> fst (microcloud_remove (removal_world inventory_elsewhere [cmd_remove_microovn ''node0''])
                ''node0'' full_leader) = Inl RuntimeError
   \<and> (\<exists>m. status (snd (microcloud_remove
                (removal_world inventory_elsewhere [cmd_remove_microovn ''node0''])
                ''node0'' full_leader)) = BlockedStatus m)"
proof -
  let ?e = "removal_world inventory_elsewhere [cmd_remove_microovn ''node0'']"
  have h: "json_loads ?e (stdout (run ?e cmd_list_instances)) = Inr (JList inventory_elsewhere)"
    "well_formed_inventory inventory_elsewhere" "\<not> located_on ''node0'' inventory_elsewhere"
    "stored_config full_leader ''snap-channel-microceph'' = Some (PyStr ''latest/stable'')"
    "stored_config full_leader ''snap-channel-microovn'' = Some (PyStr ''22.03/stable'')"
    "truthy (PyStr ''latest/stable'') = subsystem_enabled full_leader ''microceph''"
    "truthy (PyStr ''22.03/stable'') = subsystem_enabled full_leader ''microovn''"
    "\<not> executable_missing ?e (cmd_remove_microceph ''node0'')"
    "\<not> executable_missing ?e (cmd_remove_microovn ''node0'')"
    by (simp_all add: removal_defs eval_defs full_leader_def subsystem_enabled_def)
  have p: "removal_plan full_leader ''node0''
     = [cmd_remove_lxd ''node0'', cmd_remove_microceph ''node0'', cmd_remove_microovn ''node0'',
        cmd_remove_microcloud ''node0'']"
    by (simp add: removal_plan_def subsystem_enabled_def full_leader_def)
  have u: "upto_first_failure ?e (removal_plan full_leader ''node0'')
     = [cmd_remove_lxd ''node0'', cmd_remove_microceph ''node0'', cmd_remove_microovn ''node0'']"
    unfolding p by (simp add: removal_defs eval_defs)
  have n: "\<not> list_all (cmd_succeeds ?e) (removal_plan full_leader ''node0'')"
    unfolding p by (simp add: removal_defs eval_defs)
  note r = removal_follows_plan[OF h]
  show ?thesis using r(1) r(3)[OF n] by (simp add: u)
qed

text \<open>The unit deployed with both optional subsystems disabled, after its first hooks.\<close>

lemmas install_defs = on_charm_install_def install_after_validation_def config_is_valid_def
  snap_install_microcloud_def snap_ensure_def ensure_if_absent_def remember_config_def
  config_get_def stored_config_set_def resource_sideload_def on_cluster_relation_created_def
  on_update_status_def plain_deployed_def plain_life_def plain_unit_def plain_config_def
  fresh_machine_def calm_def

lemma plain_deployed_facts:
  "nodename plain_deployed = ''node0''"
  "config plain_deployed = plain_config"
  "cmds plain_deployed = [cmd_cluster_list]"
  "stored_config plain_deployed ''snap-channel-microceph'' = Some (PyStr ''latest/stable'')"
  "stored_config plain_deployed ''snap-channel-microovn'' = Some (PyStr ''22.03/stable'')"
  "own_flag plain_deployed = Some (PyStr ''True'')"
  "get_peer_data_str (Some (self_unit plain_deployed)) ''clustered'' plain_deployed = Inr ''True''"
  by (simp_all add: install_defs eval_defs)

lemma bare_world_facts:
  "json_loads bare_world (stdout (run bare_world cmd_list_instances)) = Inr (JList inventory_elsewhere)"
  "well_formed_inventory inventory_elsewhere"
  "\<not> located_on ''node0'' inventory_elsewhere"
  "cmd_succeeds bare_world (cmd_remove_lxd ''node0'')"
  "executable_missing bare_world (cmd_remove_microceph ''node0'')"
  by (simp_all add: bare_world_def removal_defs eval_defs)

lemma plain_deployed_stop:
  "on_charm_stop e plain_deployed = 
     try_except (microcloud_remove e ''node0'')
       (\<lambda>x. if x = RuntimeError then Some (ret ()) else None) plain_deployed"
  by (simp add: on_charm_stop_def plain_deployed_facts)

text \<open>
  Claim C5, where the code departs from it. A unit is deployed with both optional
  subsystems disabled and joins the cluster; the installation has stored the channels of
  all four snaps (the last lines of \<^verbatim>\<open>snap_install_microcloud\<close>). By the claim its
  removal is the compute cluster, then the clustering tool. The stop handler tests the
  stored channels and not the toggles: after the compute cluster it calls the storage
  subsystem, whose executable was never installed; FileNotFoundError, which no
  \<^verbatim>\<open>except\<close> clause names, leaves the handler with the status still maintenance, and
  the removal from the clustering tool is not attempted. Where the executables exist, all
  four removals are issued.
\<close>

theorem removal_ignores_toggles:
  "\<not> subsystem_enabled plain_deployed ''microceph''
   \<and> \<not> subsystem_enabled plain_deployed ''microovn''
   \<and> own_flag plain_deployed = Some (PyStr ''True'')
   \<and> removal_plan plain_deployed ''node0''
       = [cmd_remove_lxd ''node0'', cmd_remove_microcloud ''node0'']
   \<and> issued plain_deployed (snd (on_charm_stop bare_world plain_deployed))
       = [cmd_list_instances, cmd_remove_lxd ''node0'', cmd_remove_microceph ''node0'']
   \<and> fst (on_charm_stop bare_world plain_deployed) = Inl FileNotFoundError
   \<and> status (snd (on_charm_stop bare_world plain_deployed))
       = MaintenanceStatus (Msg ''Removing node from MicroCloud'')
   \<and> issued plain_deployed
         (snd (on_charm_stop (removal_world inventory_elsewhere []) plain_deployed))
       = [cmd_list_instances, cmd_remove_lxd ''node0'', cmd_remove_microceph ''node0'',
          cmd_remove_microovn ''node0'', cmd_remove_microcloud ''node0'']"
proof -
  let ?st1 = "plain_deployed\<lparr>cmds := cmds plain_deployed @ [cmd_list_instances],
                 status := MaintenanceStatus (Msg ''Removing node from MicroCloud'')\<rparr>"
  have en: "\<not> subsystem_enabled plain_deployed ''microceph''"
    "\<not> subsystem_enabled plain_deployed ''microovn''"
    by (simp_all add: subsystem_enabled_def plain_deployed_facts plain_config_def)
  then have plan: "removal_plan plain_deployed ''node0''
       = [cmd_remove_lxd ''node0'', cmd_remove_microcloud ''node0'']"
    by (simp add: removal_plan_def)
  have rem: "microcloud_remove bare_world ''node0'' plain_deployed
      = (Inl FileNotFoundError,
         ?st1\<lparr>cmds := cmds ?st1 @ [cmd_remove_lxd ''node0'', cmd_remove_microceph ''node0'']\<rparr>)"
    unfolding microcloud_remove_clear[OF bare_world_facts(1-3)]
    by (rule removal_steps_missing_microceph[OF bare_world_facts(4) _ _ bare_world_facts(5),
          where a = "PyStr ''latest/stable''"])
       (simp_all add: plain_deployed_facts)
  have stop: "on_charm_stop bare_world plain_deployed
      = (Inl FileNotFoundError,
         ?st1\<lparr>cmds := cmds ?st1 @ [cmd_remove_lxd ''node0'', cmd_remove_microceph ''node0'']\<rparr>)"
    by (simp add: plain_deployed_stop try_except_def rem)
  have full: "issued plain_deployed
         (snd (on_charm_stop (removal_world inventory_elsewhere []) plain_deployed))
       = [cmd_list_instances, cmd_remove_lxd ''node0'', cmd_remove_microceph ''node0'',
          cmd_remove_microovn ''node0'', cmd_remove_microcloud ''node0'']"
  proof -
    let ?w = "removal_world inventory_elsewhere []"
    have w: "json_loads ?w (stdout (run ?w cmd_list_instances)) = Inr (JList inventory_elsewhere)"
      "cmd_succeeds ?w (cmd_remove_lxd ''node0'')"
      "cmd_succeeds ?w (cmd_remove_microceph ''node0'')"
      "cmd_succeeds ?w (cmd_remove_microovn ''node0'')"
      "cmd_succeeds ?w (cmd_remove_microcloud ''node0'')"
      "\<not> executable_missing ?w (cmd_remove_microceph ''node0'')"
      "\<not> executable_missing ?w (cmd_remove_microovn ''node0'')"
      by (simp_all add: removal_defs eval_defs)
    have "microcloud_remove ?w ''node0'' plain_deployed
      = (Inr (),
         ?st1\<lparr>cmds := cmds ?st1 @ [cmd_remove_lxd ''node0'', cmd_remove_microceph ''node0'',
            cmd_remove_microovn ''node0'', cmd_remove_microcloud ''node0'']\<rparr>)"
      unfolding microcloud_remove_clear[OF w(1) bare_world_facts(2,3)]
      by (rule removal_steps_all[OF w(2-5) _ _ _ _ w(6,7),
            where a = "PyStr ''latest/stable''" and b = "PyStr ''22.03/stable''"])
         (simp_all add: plain_deployed_facts)
    then show ?thesis
      by (simp add: plain_deployed_stop try_except_def issued_def plain_deployed_facts)
  qed
  show ?thesis
    using en plan full by (simp add: stop issued_def plain_deployed_facts)
qed

section \<open>Peer state store and configuration\<close>

text \<open>
  Claim C8. \<^verbatim>\<open>get_peer_data_str\<close> returns the empty string when there is no peer
  relation, when the bag is None or when the key is empty; for a bag of the relation it
  never raises: it returns the stored value when that is a string, and the empty string
  when the key is absent or the stored value is not a string. \<^verbatim>\<open>set_peer_data_str\<close>
  changes nothing when the new value is the one that the read returns, in particular when
  it is the value stored.
\<close>

theorem peer_store_contract:
  "(peers st = None \<or> bag = None \<or> key = '''' \<longrightarrow> get_peer_data_str bag key st = Inr '''')
   \<and> (bag = Some b \<and> bag_present st b \<and> key \<noteq> '''' \<longrightarrow>
        get_peer_data_str bag key st
          = Inr (case stored_value st b key of Some (PyStr s) \<Rightarrow> s | _ \<Rightarrow> ''''))
   \<and> (get_peer_data_str bag key st = Inr v \<longrightarrow> set_peer_data_str bag key v st = (Inr (), st))
   \<and> (bag = Some b \<and> stored_value st b key = Some (PyStr v) \<longrightarrow>
        set_peer_data_str bag key v st = (Inr (), st))"
  by (auto simp: get_peer_data_str_def set_peer_data_str_def stored_value_def bag_present_def
      split: option.splits pyval.splits)

text \<open>
  Outside the claim: for a unit that has no bag in the relation the lookup
  \<^verbatim>\<open>self.peers.data[bag]\<close> raises KeyError. The charm passes \<^verbatim>\<open>self.unit\<close> only.
\<close>

lemma get_peer_data_str_unknown_bag:
  "peers st = Some r \<Longrightarrow> data r b = None \<Longrightarrow> key \<noteq> '''' \<Longrightarrow>
     get_peer_data_str (Some b) key st = Inl KeyError"
  by (simp add: get_peer_data_str_def)

text \<open>
  Witness for C8: no bag; a bag whose \<^verbatim>\<open>clustered\<close> entry is an integer; an absent key;
  a write of the value already stored.
\<close>

theorem peer_store_contract_witness:
  "get_peer_data_str None ''clustered'' odd_bag = Inr ''''
   \<and> bag_present odd_bag ''microcloud/0''
   \<and> stored_value odd_bag ''microcloud/0'' ''clustered'' = Some (PyInt 1)
   \<and> get_peer_data_str (Some ''microcloud/0'') ''clustered'' odd_bag = Inr ''''
   \<and> stored_value odd_bag ''microcloud/0'' ''flag'' = None
   \<and> get_peer_data_str (Some ''microcloud/0'') ''flag'' odd_bag = Inr ''''
   \<and> stored_value joiner ''microcloud/1'' ''clustered'' = Some (PyStr ''True'')
   \<and> get_peer_data_str (Some ''microcloud/1'') ''clustered'' joiner = Inr ''True''
   \<and> set_peer_data_str (Some ''microcloud/1'') ''clustered'' ''True'' joiner = (Inr (), joiner)"
proof -
  have 1: "bag_present odd_bag ''microcloud/0''"
    and 2: "stored_value odd_bag ''microcloud/0'' ''clustered'' = Some (PyInt 1)"
    and 3: "stored_value odd_bag ''microcloud/0'' ''flag'' = None"
    by (simp_all add: odd_bag_def bag_present_def stored_value_def scenario_defs)
  have 4: "stored_value joiner ''microcloud/1'' ''clustered'' = Some (PyStr ''True'')"
    and 5: "bag_present joiner ''microcloud/1''"
    by (simp_all add: joiner_def bag_present_def stored_value_def scenario_defs)
  show ?thesis
    using peer_store_contract[of odd_bag None "''clustered''" "''microcloud/0''" "''''"]
      peer_store_contract[of odd_bag "Some ''microcloud/0''" "''clustered''" "''microcloud/0''" "''''"]
      peer_store_contract[of odd_bag "Some ''microcloud/0''" "''flag''" "''microcloud/0''" "''''"]
      peer_store_contract[of joiner "Some ''microcloud/1''" "''clustered''" "''microcloud/1''" "''True''"]
      1 2 3 4 5
    by simp
qed

text \<open>
  Claim C10. \<^verbatim>\<open>config_is_valid\<close> is True for every configuration, so the install and
  config-changed handlers never take the early return of an invalid configuration: each
  always is what follows its validity check.
\<close>

theorem config_always_valid:
  "config_is_valid st
   \<and> on_charm_install e st = install_after_validation e st
   \<and> on_charm_config_changed e st = config_changed_after_validation e st"
  by (simp add: config_is_valid_def on_charm_install_def on_charm_config_changed_def)

section \<open>The own flag over the life of a unit\<close>

text \<open>
  The handlers other than relation-created, start and update-status leave the peer
  relation as it was, whatever the commands do.
\<close>

lemma vk_stored_config_get: "keeps (view_kept C) (stored_config_get k)"
  by (rule keepsI) (simp add: stored_config_get_def reflpD[OF reflp_view_kept] split: option.splits)

lemma vk_resource_sideload: "keeps (view_kept UNIV) (resource_sideload e)"
  by (rule keepsI) (simp add: resource_sideload_def view_kept_def cmds_within_def)

lemma vk_run_any: "keeps (view_kept UNIV) (subprocess_run e argv c k t)"
  by (rule vk_subprocess_run) simp

lemmas vu_basic = vk_basic vk_run_any vk_stored_config_get vk_resource_sideload
  keeps_lift[OF reflp_view_kept]

lemma vk_mono: "C \<subseteq> C' \<Longrightarrow> view_kept C st st' \<Longrightarrow> view_kept C' st st'"
  by (auto simp: view_kept_def cmds_within_def)

lemma vu_snap_install: "keeps (view_kept UNIV) (snap_install_microcloud e)"
  by (rule keepsI) (rule vk_mono[OF _ keepsD[OF vk_snap_install]], simp)

lemma vu_config_changed: "keeps (view_kept UNIV) (on_charm_config_changed e)"
  by (rule keepsI) (rule vk_mono[OF _ keepsD[OF vk_config_changed]], simp)

lemma vu_blocked_then_runtime_error:
  "blocked_then_runtime_error x = Some h \<Longrightarrow> keeps (view_kept UNIV) h"
  by (auto simp: blocked_then_runtime_error_def vu_basic vk_bnd split: exn.splits)

lemma vu_microcloud_add: "keeps (view_kept UNIV) (microcloud_add e)"
  unfolding microcloud_add_def
  by (intro vk_bnd vk_try vu_basic) (erule vu_blocked_then_runtime_error)

lemma vu_safety_check: "keeps (view_kept UNIV) (safety_check e node)"
  unfolding safety_check_def safety_check_body_def
  by (intro vk_bnd vk_try vu_basic) (auto simp: vu_basic vk_bnd split: exn.splits)

lemma vu_removal_steps: "keeps (view_kept UNIV) (removal_steps e node)"
  unfolding removal_steps_def
  by (intro vk_bnd vu_basic) (auto simp: vu_basic vk_bnd)

lemma vu_microcloud_remove: "keeps (view_kept UNIV) (microcloud_remove e node)"
  unfolding microcloud_remove_def
  by (intro vk_bnd vu_safety_check)
     (auto intro!: vk_bnd vk_try vu_basic vu_removal_steps elim: vu_blocked_then_runtime_error)

lemma vu_install: "keeps (view_kept UNIV) (on_charm_install e)"
proof (rule keepsI)
  fix st
  have "keeps (view_kept UNIV) (install_after_validation e)"
    unfolding install_after_validation_def
    by (intro vk_bnd vk_try vu_basic vu_snap_install)
       (auto intro!: vk_bnd vu_basic split: if_splits)
  then show "view_kept UNIV st (snd (on_charm_install e st))"
    by (simp add: on_charm_install_def config_is_valid_def keepsD)
qed

lemma vu_joined: "keeps (view_kept UNIV) (on_cluster_relation_joined e u)"
proof (rule keepsI)
  fix st
  have "keeps (view_kept UNIV) (try_except (microcloud_add e)
                       (\<lambda>x. if x = RuntimeError then Some (ret ()) else None))"
    by (intro vk_try vu_microcloud_add) (auto intro!: vu_basic split: if_splits)
  then show "view_kept UNIV st (snd (on_cluster_relation_joined e u st))"
    by (auto simp: on_cluster_relation_joined_def raise_def ret_def keepsD
        reflpD[OF reflp_view_kept] split: sum.splits)
qed

lemma vu_stop: "keeps (view_kept UNIV) (on_charm_stop e)"
proof (rule keepsI)
  fix st
  have "keeps (view_kept UNIV) (try_except (microcloud_remove e n)
                       (\<lambda>x. if x = RuntimeError then Some (ret ()) else None))" for n
    by (intro vk_try vu_microcloud_remove) (auto intro!: vu_basic split: if_splits)
  then show "view_kept UNIV st (snd (on_charm_stop e st))"
    by (auto simp: on_charm_stop_def raise_def ret_def keepsD
        reflpD[OF reflp_view_kept] split: sum.splits)
qed

lemma vk_own_flag: "view_kept C st st' \<Longrightarrow> own_flag st' = own_flag st"
  by (rule own_flag_cong) (simp_all add: view_kept_def)

text \<open>One step of a life, by the kind of the step.\<close>

lemma perform_quiet:
  assumes "\<not> runs_relation_created s" and "\<not> raises_flag s"
  shows "own_flag (perform s st) = own_flag st"
proof (cases s)
  case (Handler e h)
  have d: "own_flag (st\<lparr>deferred := False\<rparr>) = own_flag st"
    by (rule own_flag_cong) simp_all
  from assms Handler have "h \<noteq> Relation_created" "h \<noteq> Start" "h \<noteq> Update_status" by simp_all
  then have "keeps (view_kept UNIV) (dispatch e h)"
    by (cases h) (simp_all add: vu_install vu_config_changed vu_stop vu_joined)
  from vk_own_flag[OF keepsD[OF this]] show ?thesis by (simp add: Handler d)
next
  case (Framework c)
  then show ?thesis
    by (cases c) (auto simp: own_flag_def stored_value_def split: option.splits)
qed

lemma perform_relation_created:
  "own_flag (perform (Handler e Relation_created) st) = own_flag st
   \<or> own_flag (perform (Handler e Relation_created) st) = Some (PyStr ''False'')"
  by (auto simp: on_cluster_relation_created_def store_defs own_flag_def
      split: option.splits pyval.splits if_splits)

lemma no_relation_created_ordered:
  "\<not> list_ex runs_relation_created ss \<Longrightarrow> framework_ordered ss"
  by (induction ss) auto

lemma relation_created_quiet: "runs_relation_created s \<Longrightarrow> \<not> raises_flag s"
  by (cases s) auto

lemma flag_rank_True: "flag_rank f \<le> flag_rank (Some (PyStr ''True''))"
  by (cases f) simp_all

lemma flag_rank_False: "flag_value f \<Longrightarrow> f \<noteq> Some (PyStr ''True'') \<Longrightarrow>
    flag_rank f \<le> flag_rank (Some (PyStr ''False''))"
  by (auto simp: flag_value_def)

lemma life_step:
  assumes "life_invariant st (s # ss)"
  shows "life_invariant (perform s st) ss
         \<and> flag_rank (own_flag st) \<le> flag_rank (own_flag (perform s st))"
proof -
  from assms have fv: "flag_value (own_flag st)" by (simp add: life_invariant_def)
  consider (created) "runs_relation_created s"
    | (raising) "\<not> runs_relation_created s" "raises_flag s"
    | (quiet) "\<not> runs_relation_created s" "\<not> raises_flag s"
    by blast
  then show ?thesis
  proof cases
    case created
    then obtain e where s: "s = Handler e Relation_created" by (cases s) auto
    from assms created have nt: "own_flag st \<noteq> Some (PyStr ''True'')"
      by (auto simp: life_invariant_def)
    with assms created have ord: "framework_ordered ss"
      by (simp add: life_invariant_def relation_created_quiet)
    from perform_relation_created[of e st]
    have "own_flag (perform s st) = own_flag st
          \<or> own_flag (perform s st) = Some (PyStr ''False'')" by (simp add: s)
    then show ?thesis
    proof
      assume "own_flag (perform s st) = own_flag st"
      then show ?thesis using fv nt ord by (simp add: life_invariant_def)
    next
      assume "own_flag (perform s st) = Some (PyStr ''False'')"
      then show ?thesis using flag_rank_False[OF fv nt] ord
        by (simp add: life_invariant_def flag_value_def)
    qed
  next
    case raising
    from assms raising have none: "\<not> list_ex runs_relation_created ss"
      by (auto simp: life_invariant_def split: if_splits)
    from fr_perform[OF raising(1), of st]
    have "own_flag (perform s st) = own_flag st
          \<or> own_flag (perform s st) = Some (PyStr ''True'')" by (simp add: flag_raised_def)
    then show ?thesis
    proof
      assume "own_flag (perform s st) = own_flag st"
      then show ?thesis using fv none no_relation_created_ordered[OF none]
        by (simp add: life_invariant_def)
    next
      assume "own_flag (perform s st) = Some (PyStr ''True'')"
      then show ?thesis using none flag_rank_True[of "own_flag st"]
        by (simp add: life_invariant_def flag_value_def)
    qed
  next
    case quiet
    from perform_quiet[OF quiet, of st] assms quiet show ?thesis
      by (auto simp: life_invariant_def split: if_splits)
  qed
qed

lemma life_prefix:
  "life_invariant st (pre @ post) \<Longrightarrow>
     life_invariant (perform_all pre st) post
     \<and> flag_rank (own_flag st) \<le> flag_rank (own_flag (perform_all pre st))"
proof (induction pre arbitrary: st)
  case Nil
  then show ?case by simp
next
  case (Cons s pre)
  from life_step[of st s "pre @ post"] Cons.prems
  have 1: "life_invariant (perform s st) (pre @ post)"
    and 2: "flag_rank (own_flag st) \<le> flag_rank (own_flag (perform s st))" by simp_all
  from Cons.IH[OF 1] 2 show ?case by simp
qed

lemma perform_all_append:
  "perform_all (pre @ post) st = perform_all post (perform_all pre st)"
  by (induction pre arbitrary: st) simp_all

text \<open>
  Claim C3. In the life of a unit, a sequence of handler executions and of changes by the
  framework in which, as the framework orders the events, the relation-created handler
  does not run after a start or update-status handler, and which begins with the
  \<^verbatim>\<open>clustered\<close> flag unset, whatever the commands do: at every point the flag is unset,
  \<^verbatim>\<open>"False"\<close> or \<^verbatim>\<open>"True"\<close>; from every point to every later point it keeps its
  place in the order unset, \<^verbatim>\<open>"False"\<close>, \<^verbatim>\<open>"True"\<close>, or moves forward; and a flag
  that is \<^verbatim>\<open>"True"\<close> at a point is \<^verbatim>\<open>"True"\<close> at every later one: no handler writes
  \<^verbatim>\<open>"False"\<close> over it.
\<close>

theorem own_flag_monotone:
  "framework_ordered (pre @ post) \<and> own_flag st = None \<longrightarrow>
     flag_value (own_flag (perform_all pre st))
     \<and> flag_rank (own_flag (perform_all pre st))
         \<le> flag_rank (own_flag (perform_all (pre @ post) st))
     \<and> (own_flag (perform_all pre st) = Some (PyStr ''True'') \<longrightarrow>
          own_flag (perform_all (pre @ post) st) = Some (PyStr ''True''))"
proof
  assume a: "framework_ordered (pre @ post) \<and> own_flag st = None"
  then have "life_invariant st (pre @ post)" by (simp add: life_invariant_def flag_value_def)
  from life_prefix[OF this] have mid: "life_invariant (perform_all pre st) post" by simp
  from life_prefix[of "perform_all pre st" post "[]"] mid
  have le: "flag_rank (own_flag (perform_all pre st))
         \<le> flag_rank (own_flag (perform_all (pre @ post) st))"
    by (simp add: perform_all_append)
  have top: "own_flag (perform_all (pre @ post) st) = Some (PyStr ''True'')"
    if t: "own_flag (perform_all pre st) = Some (PyStr ''True'')"
  proof (cases "own_flag (perform_all (pre @ post) st)")
    case None
    then show ?thesis using le t by simp
  next
    case (Some v)
    then show ?thesis using le t by (simp split: if_splits)
  qed
  from mid le top show "flag_value (own_flag (perform_all pre st))
     \<and> flag_rank (own_flag (perform_all pre st))
         \<le> flag_rank (own_flag (perform_all (pre @ post) st))
     \<and> (own_flag (perform_all pre st) = Some (PyStr ''True'') \<longrightarrow>
          own_flag (perform_all (pre @ post) st) = Some (PyStr ''True''))"
    by (simp add: life_invariant_def)
qed

lemma newcomer_facts:
  "framework_ordered (newcomer_before @ newcomer_after)"
  "framework_ordered ((newcomer_before @ newcomer_after) @ [Handler calm Update_status])"
  "own_flag newcomer = None"
  "own_flag (perform_all newcomer_before newcomer) = Some (PyStr ''False'')"
  "own_flag (perform_all (newcomer_before @ newcomer_after) newcomer) = Some (PyStr ''True'')"
  by (simp_all add: newcomer_def newcomer_before_def newcomer_after_def calm_def eval_defs
      on_update_status_def on_cluster_relation_created_def on_cluster_relation_joined_def
      microcloud_add_def)

text \<open>
  Witness for C3: a new follower whose peer is clustered. Relation-created takes its flag
  from unset to \<^verbatim>\<open>"False"\<close>; it becomes leader, starts, and the probe takes the flag to
  \<^verbatim>\<open>"True"\<close>, where update-status, relation-joined and a further update-status leave it.
\<close>

theorem own_flag_monotone_witness:
  "framework_ordered (newcomer_before @ newcomer_after) \<and> own_flag newcomer = None
   \<and> own_flag (perform_all newcomer_before newcomer) = Some (PyStr ''False'')
   \<and> flag_value (own_flag (perform_all newcomer_before newcomer))
   \<and> flag_rank (own_flag (perform_all newcomer_before newcomer))
       \<le> flag_rank (own_flag (perform_all (newcomer_before @ newcomer_after) newcomer))
   \<and> own_flag (perform_all (newcomer_before @ newcomer_after) newcomer) = Some (PyStr ''True'')
   \<and> framework_ordered ((newcomer_before @ newcomer_after) @ [Handler calm Update_status])
   \<and> own_flag (perform_all ((newcomer_before @ newcomer_after) @ [Handler calm Update_status])
         newcomer) = Some (PyStr ''True'')"
  using own_flag_monotone[of newcomer_before newcomer_after newcomer]
    own_flag_monotone[of "newcomer_before @ newcomer_after" "[Handler calm Update_status]" newcomer]
    newcomer_facts
  by simp

end
